theory Spec2Isabelle
  imports Complex_Main "HOL-Library.Word" "HOL-Library.Log_Nat"
begin

section \<open>Zone registry of the editor (src/app.py, the script of get_editor_html)\<close>

text \<open>
  The editor is the JavaScript held in the string that \<^verbatim>\<open>get_editor_html\<close> returns.
  Its tables are literal objects; they are embedded as total functions over the
  finite key sets the script uses.  Coordinates are the integer literals of the
  source, kept as \<^typ>\<open>int\<close> so that the lower bounds are statements and not typing.
\<close>

definition CANVAS_W :: int where
  "CANVAS_W = 585"

definition CANVAS_H :: int where
  "CANVAS_H = 600"

record region =
  rx :: int
  ry :: int
  rw :: int
  rh :: int

definition mk_region :: "int \<Rightarrow> int \<Rightarrow> int \<Rightarrow> int \<Rightarrow> region" where
  "mk_region a b c d = \<lparr>rx = a, ry = b, rw = c, rh = d\<rparr>"

datatype texture_source = SrcShirt | SrcPants | SrcNone

datatype part_name = Torso | RightArm | LeftArm | RightLeg | LeftLeg | Head

datatype face = Right | Left | Top | Bottom | Front | Back

record body_part =
  part_size :: "rat \<times> rat \<times> rat"
  part_position :: "rat \<times> rat \<times> rat"
  textureSource :: texture_source
  faces :: "face \<Rightarrow> region option"

text \<open>The \<^verbatim>\<open>faces\<close> object of a part, written in the order the source lists its keys.\<close>

fun mk_faces :: "region option \<Rightarrow> region option \<Rightarrow> region option \<Rightarrow> region option \<Rightarrow>
    region option \<Rightarrow> region option \<Rightarrow> face \<Rightarrow> region option" where
  "mk_faces fr bk rt lf tp bt Front = fr"
| "mk_faces fr bk rt lf tp bt Back = bk"
| "mk_faces fr bk rt lf tp bt Right = rt"
| "mk_faces fr bk rt lf tp bt Left = lf"
| "mk_faces fr bk rt lf tp bt Top = tp"
| "mk_faces fr bk rt lf tp bt Bottom = bt"

fun BODY_PARTS :: "part_name \<Rightarrow> body_part" where
  "BODY_PARTS Torso = \<lparr>part_size = (2, 2, 1), part_position = (0, 0, 0),
     textureSource = SrcShirt,
     faces = mk_faces
       (Some (mk_region 128 128 128 128)) (Some (mk_region 327 128 128 128))
       (Some (mk_region 64 128 64 128)) (Some (mk_region 256 128 64 128))
       (Some (mk_region 128 0 128 64)) (Some (mk_region 128 256 128 64))\<rparr>"
| "BODY_PARTS RightArm = \<lparr>part_size = (1, 2, 1), part_position = (- 3 / 2, 0, 0),
     textureSource = SrcShirt,
     faces = mk_faces
       (Some (mk_region 64 388 64 128)) (Some (mk_region 129 388 64 128))
       (Some (mk_region 0 388 64 128)) (Some (mk_region 128 388 64 128))
       (Some (mk_region 64 323 64 64)) (Some (mk_region 64 516 64 43))\<rparr>"
| "BODY_PARTS LeftArm = \<lparr>part_size = (1, 2, 1), part_position = (3 / 2, 0, 0),
     textureSource = SrcShirt,
     faces = mk_faces
       (Some (mk_region 455 388 64 128)) (Some (mk_region 520 388 64 128))
       (Some (mk_region 391 388 64 128)) (Some (mk_region 519 388 64 128))
       (Some (mk_region 455 323 64 64)) (Some (mk_region 455 516 64 43))\<rparr>"
| "BODY_PARTS RightLeg = \<lparr>part_size = (1, 2, 1), part_position = (- 1 / 2, - 2, 0),
     textureSource = SrcPants,
     faces = mk_faces
       (Some (mk_region 64 388 64 128)) (Some (mk_region 129 388 64 128))
       (Some (mk_region 0 388 64 128)) (Some (mk_region 128 388 64 128))
       (Some (mk_region 64 323 64 64)) (Some (mk_region 64 516 64 43))\<rparr>"
| "BODY_PARTS LeftLeg = \<lparr>part_size = (1, 2, 1), part_position = (1 / 2, - 2, 0),
     textureSource = SrcPants,
     faces = mk_faces
       (Some (mk_region 455 388 64 128)) (Some (mk_region 520 388 64 128))
       (Some (mk_region 391 388 64 128)) (Some (mk_region 519 388 64 128))
       (Some (mk_region 455 323 64 64)) (Some (mk_region 455 516 64 43))\<rparr>"
| "BODY_PARTS Head = \<lparr>part_size = (6 / 5, 6 / 5, 6 / 5), part_position = (0, 8 / 5, 0),
     textureSource = SrcNone,
     faces = mk_faces None None None None None None\<rparr>"

text \<open>\<^verbatim>\<open>Object.keys(BODY_PARTS)\<close>: the keys in the order the literal declares them.\<close>

definition PART_NAMES :: "part_name list" where
  "PART_NAMES = [Torso, RightArm, LeftArm, RightLeg, LeftLeg, Head]"

definition FACE_ORDER :: "face list" where
  "FACE_ORDER = [Right, Left, Top, Bottom, Front, Back]"

text \<open>
  \<^verbatim>\<open>FIT_ZONES[zoneName]\<close>: the lookup of a property by a string; a name that is
  not a key gives \<^verbatim>\<open>undefined\<close>, here \<^const>\<open>None\<close>.
\<close>

definition FIT_ZONES :: "string \<Rightarrow> region option" where
  "FIT_ZONES = map_of
     [(''front'', mk_region 128 128 128 128),
      (''back'', mk_region 327 128 128 128),
      (''r_arm'', mk_region 64 388 64 128),
      (''l_arm'', mk_region 455 388 64 128)]"

text \<open>A source rectangle lies on the 585 x 600 sheet.\<close>

definition in_canvas :: "region \<Rightarrow> bool" where
  "in_canvas r \<longleftrightarrow>
     0 \<le> rx r \<and> 0 \<le> ry r \<and> rx r + rw r \<le> CANVAS_W \<and> ry r + rh r \<le> CANVAS_H"

section \<open>JavaScript numbers\<close>

text \<open>
  A JavaScript number is an IEEE 754 double.  Every finite double is a rational,
  so numbers are held as \<^typ>\<open>rat\<close>, and the arithmetic the script performs
  (\<^verbatim>\<open>zone.w / activeObj.width\<close>) rounds its exact result to the nearest double,
  ties to even, as ECMAScript prescribes.  \<open>round_to_double\<close> is that rounding for
  results whose magnitude lies in the normal range of doubles (between
  \<open>2^-1022\<close> and \<open>2^1024\<close>), which holds for every quotient of a zone size by a
  positive image size; overflow and subnormal results are outside the model.
  A division by zero gives \<^verbatim>\<open>Infinity\<close> or \<^verbatim>\<open>NaN\<close> in JavaScript, which are no
  rationals: \<open>js_div a b\<close> is the JavaScript quotient for \<open>b \<noteq> 0\<close> only.  The
  natural width and height of a decoded image, the only divisors of the script,
  are positive.
\<close>

definition round_half_even :: "int \<Rightarrow> int \<Rightarrow> int" where
  "round_half_even n d =
     (let q = n div d; r = n mod d
      in if 2 * r < d then q
         else if d < 2 * r then q + 1
         else if even q then q else q + 1)"

text \<open>
  \<open>n / d\<close> scaled by \<open>2^s\<close>, as a fraction of integers (\<open>s\<close> may be negative).
\<close>

definition scaled :: "int \<Rightarrow> int \<Rightarrow> int \<Rightarrow> int \<times> int" where
  "scaled n d s = (if 0 \<le> s then (n * 2 ^ nat s, d) else (n, d * 2 ^ nat (- s)))"

text \<open>
  The binary exponent \<open>s\<close> with \<open>2^52 \<le> (n / d) * 2^s < 2^53\<close>, for positive
  \<open>n\<close> and \<open>d\<close>: the significand of a double has 53 bits.
\<close>

definition mantissa_shift :: "int \<Rightarrow> int \<Rightarrow> int" where
  "mantissa_shift n d =
     (let s = 53 - (bitlen n - bitlen d); (a, b) = scaled n d s
      in if 2 ^ 53 * b \<le> a then s - 1 else s)"

definition round_pos :: "int \<Rightarrow> int \<Rightarrow> rat" where
  "round_pos n d =
     (let s = mantissa_shift n d; (a, b) = scaled n d s; m = round_half_even a b
      in if 0 \<le> s then of_int m / 2 ^ nat s else of_int m * 2 ^ nat (- s))"

definition round_to_double :: "rat \<Rightarrow> rat" where
  "round_to_double q =
     (let (n, d) = quotient_of q
      in if n = 0 then 0 else if 0 < n then round_pos n d else - round_pos (- n) d)"

definition js_div :: "rat \<Rightarrow> rat \<Rightarrow> rat" where
  "js_div a b = round_to_double (a / b)"

definition js_mul :: "rat \<Rightarrow> rat \<Rightarrow> rat" where
  "js_mul a b = round_to_double (a * b)"

definition js_add :: "rat \<Rightarrow> rat \<Rightarrow> rat" where
  "js_add a b = round_to_double (a + b)"

section \<open>Canvas objects and the library the script calls\<close>

text \<open>
  The script draws through Fabric.js, the 2D canvas API and three.js, which are not
  part of the repository.  What they compute on pixels is taken as a parameter: the
  type \<open>'img\<close> is a pixel buffer, and the record \<open>lib\<close> holds the library
  functions the script relies on.
  \<^item> \<open>measureText\<close>: the width and height Fabric gives a bold 14 px text;
  \<^item> \<open>paintBackground\<close>: the 585 x 600 buffer cleared to the background colour, with
    the background image (the ghost template at 30% opacity), once it is loaded;
  \<^item> \<open>paintObject\<close>: one object drawn over a buffer;
  \<^item> \<open>paintControls\<close>: the selection border and handles of an object drawn over a buffer;
  \<^item> \<open>filled128\<close>: a 128 x 128 buffer after \<^verbatim>\<open>fillStyle = c; fillRect(0, 0, 128, 128)\<close>
    with an opaque colour, which replaces every pixel whatever the buffer held;
  \<^item> \<open>drawImage\<close>: \<^verbatim>\<open>ctx.drawImage(src, x, y, w, h, 0, 0, 128, 128)\<close> over a
    destination buffer.
\<close>

datatype 'img shape =
  TextShape string string
| RectShape string
| ImageShape 'img

text \<open>
  A Fabric object with the properties the script sets or reads, and the angle that
  the user's rotation gesture sets.  \<open>TextShape label fill\<close> and \<open>RectShape stroke\<close>
  are the two guide annotations of a drop zone, \<open>ImageShape element\<close> an uploaded
  layer.  The constant styling of the guides (font size and weight, centred
  origin, stroke width and dashes, transparent fill) only bears on how the
  library paints them and is part of \<open>paintObject\<close>.
\<close>

record 'img fobj =
  shape :: "'img shape"
  oleft :: rat
  otop :: rat
  width :: rat
  height :: rat
  scaleX :: rat
  scaleY :: rat
  angle :: rat
  visible :: bool
  selectable :: bool
  evented :: bool
  isGuide :: bool

record 'img lib =
  measureText :: "string \<Rightarrow> rat \<times> rat"
  paintBackground :: "string \<Rightarrow> 'img option \<Rightarrow> 'img"
  paintObject :: "'img fobj \<Rightarrow> 'img \<Rightarrow> 'img"
  paintControls :: "'img fobj \<Rightarrow> 'img \<Rightarrow> 'img"
  filled128 :: "string \<Rightarrow> 'img"
  drawImage :: "'img \<Rightarrow> region \<Rightarrow> 'img \<Rightarrow> 'img"

text \<open>
  A Fabric canvas: \<open>objects\<close> is its \<^verbatim>\<open>_objects\<close> array, bottom to top.  An object
  is on a canvas once, so the reference \<^verbatim>\<open>_activeObject\<close> is held as the position of
  the active object in \<open>objects\<close>.
\<close>

record 'img fcanvas =
  backgroundColor :: string
  backgroundImage :: "'img option"
  objects :: "'img fobj list"
  activeObject :: "nat option"

record zone =
  zx :: int
  zy :: int
  zw :: int
  zh :: int
  color :: string
  label :: string
  labelY :: int

definition DROP_ZONES :: "(string \<times> zone) list" where
  "DROP_ZONES =
     [(''torso_front'', \<lparr>zx = 128, zy = 128, zw = 128, zh = 128, color = ''#4CAF50'',
         label = ''FRONT'', labelY = - 20\<rparr>),
      (''torso_back'', \<lparr>zx = 327, zy = 128, zw = 128, zh = 128, color = ''#4CAF50'',
         label = ''BACK'', labelY = - 20\<rparr>),
      (''right_arm'', \<lparr>zx = 0, zy = 323, zw = 192, zh = 236, color = ''#2196F3'',
         label = ''R. ARM/LEG'', labelY = - 20\<rparr>),
      (''left_arm'', \<lparr>zx = 393, zy = 323, zw = 192, zh = 236, color = ''#FF9800'',
         label = ''L. ARM/LEG'', labelY = - 20\<rparr>)]"

text \<open>
  The label and the dashed rectangle that \<^verbatim>\<open>initCanvas\<close> adds for one drop zone.
  \<^verbatim>\<open>zone.labelY || -20\<close> is \<open>- 20\<close> when \<open>labelY\<close> is 0.
\<close>

definition guide_text :: "'img lib \<Rightarrow> zone \<Rightarrow> 'img fobj" where
  "guide_text L z =
     \<lparr>shape = TextShape (label z) (color z),
      oleft = js_add (of_int (zx z)) (js_div (of_int (zw z)) 2),
      otop = of_int (zy z + (if labelY z = 0 then - 20 else labelY z)),
      width = fst (measureText L (label z)), height = snd (measureText L (label z)),
      scaleX = 1, scaleY = 1, angle = 0,
      visible = True, selectable = False, evented = False, isGuide = True\<rparr>"

definition guide_rect :: "zone \<Rightarrow> 'img fobj" where
  "guide_rect z =
     \<lparr>shape = RectShape (color z),
      oleft = of_int (zx z), otop = of_int (zy z),
      width = of_int (zw z), height = of_int (zh z),
      scaleX = 1, scaleY = 1, angle = 0,
      visible = True, selectable = False, evented = False, isGuide = True\<rparr>"

text \<open>
  \<^verbatim>\<open>initCanvas\<close>: a white canvas with the text and the rectangle of every drop
  zone, in the order of the keys.  The guides are added before the change handlers
  are registered, so adding them synchronises nothing.  The background image
  arrives later, through the callback of the image load (\<open>templateLoaded\<close>);
  until then, and when the load fails, the canvas has none.
\<close>

definition initCanvas :: "'img lib \<Rightarrow> 'img fcanvas" where
  "initCanvas L =
     \<lparr>backgroundColor = ''#ffffff'', backgroundImage = None,
      objects = concat (map (\<lambda>(key, z). [guide_text L z, guide_rect z]) DROP_ZONES),
      activeObject = None\<rparr>"

definition templateLoaded :: "'img \<Rightarrow> 'img fcanvas \<Rightarrow> 'img fcanvas" where
  "templateLoaded img c = c\<lparr>backgroundImage := Some img\<rparr>"

text \<open>
  Fabric's rendering, as its documentation gives it: the background, then every
  visible object in stacking order, then the controls of the active object.
\<close>

definition paintVisible :: "'img lib \<Rightarrow> 'img \<Rightarrow> 'img fobj \<Rightarrow> 'img" where
  "paintVisible L im ob = (if visible ob then paintObject L ob im else im)"

definition renderCanvas :: "'img lib \<Rightarrow> 'img fcanvas \<Rightarrow> 'img" where
  "renderCanvas L c =
     (let base = foldl (paintVisible L)
                   (paintBackground L (backgroundColor c) (backgroundImage c)) (objects c)
      in case activeObject c of
           None \<Rightarrow> base
         | Some i \<Rightarrow> if i < length (objects c) then paintControls L (objects c ! i) base
                     else base)"

text \<open>
  \<^verbatim>\<open>canvas.bringToFront(obj)\<close> removes the object from the array and pushes it at
  the end; \<^verbatim>\<open>canvas.remove(obj)\<close> removes it and, when it was the active object,
  clears the selection.  The position of the active object follows the object.
\<close>

definition moved_index :: "nat \<Rightarrow> nat \<Rightarrow> nat \<Rightarrow> nat" where
  "moved_index i n j = (if j = i then n - 1 else if i < j then j - 1 else j)"

definition bringToFront :: "nat \<Rightarrow> 'img fcanvas \<Rightarrow> 'img fcanvas" where
  "bringToFront i c =
     (if i < length (objects c)
      then c\<lparr>objects := take i (objects c) @ drop (Suc i) (objects c) @ [objects c ! i],
             activeObject := map_option (moved_index i (length (objects c))) (activeObject c)\<rparr>
      else c)"

definition removed_index :: "nat \<Rightarrow> nat \<Rightarrow> nat option" where
  "removed_index i j = (if j = i then None else if i < j then Some (j - 1) else Some j)"

definition remove_object :: "nat \<Rightarrow> 'img fcanvas \<Rightarrow> 'img fcanvas" where
  "remove_object i c =
     (if i < length (objects c)
      then c\<lparr>objects := take i (objects c) @ drop (Suc i) (objects c),
             activeObject := Option.bind (activeObject c) (removed_index i)\<rparr>
      else c)"

text \<open>The user's layers: the objects of a canvas that are not guides.\<close>

definition layers :: "'img fcanvas \<Rightarrow> 'img fobj list" where
  "layers c = filter (\<lambda>ob. \<not> isGuide ob) (objects c)"

section \<open>The editor state\<close>

datatype channel = Shirt | Pants

datatype material = SkinMaterial | FaceMaterial part_name face

text \<open>
  \<^verbatim>\<open>faceCanvases[part][face]\<close> and \<^verbatim>\<open>faceTextures[part][face]\<close> are filled under
  the same keys by the same iteration and their keys never change, so one map
  holds both: the pixels of the 128 x 128 canvas and the version of the
  \<^verbatim>\<open>THREE.CanvasTexture\<close> over it, which three.js increments whenever
  \<^verbatim>\<open>needsUpdate\<close> is set to true.
\<close>

record 'img face_texture =
  pixels :: 'img
  version :: nat

record 'img editor =
  currentMode :: channel
  shirtCanvas :: "'img fcanvas"
  pantsCanvas :: "'img fcanvas"
  faceTex :: "part_name \<Rightarrow> face \<Rightarrow> 'img face_texture option"
  bodyMeshes :: "part_name \<Rightarrow> material list option"
  shirtHidden :: bool
  pantsHidden :: bool
  modeLabel :: "string \<times> string"
  torsoOnlyHidden :: bool
  legend :: "string list"

definition getActiveCanvas :: "'img editor \<Rightarrow> 'img fcanvas" where
  "getActiveCanvas ed = (if currentMode ed = Shirt then shirtCanvas ed else pantsCanvas ed)"

text \<open>
  The canvases are mutated in place; \<open>putActiveCanvas\<close> writes the new value of the
  canvas that \<open>getActiveCanvas\<close> returned back into the state.
\<close>

definition putActiveCanvas :: "'img fcanvas \<Rightarrow> 'img editor \<Rightarrow> 'img editor" where
  "putActiveCanvas c ed =
     (if currentMode ed = Shirt then ed\<lparr>shirtCanvas := c\<rparr> else ed\<lparr>pantsCanvas := c\<rparr>)"

text \<open>
  The creation of the body parts: for each part and each face in \<open>FACE_ORDER\<close>,
  the skin material when the face has no region, else a new 128 x 128 canvas
  filled with the default colour of the part's texture source, a texture over it
  (the constructor of \<^verbatim>\<open>CanvasTexture\<close> sets \<^verbatim>\<open>needsUpdate\<close>) and a material over
  the texture.
\<close>

definition createFace :: "'img lib \<Rightarrow> body_part \<Rightarrow> face \<Rightarrow> 'img face_texture option" where
  "createFace L part faceName =
     (case faces part faceName of
        None \<Rightarrow> None
      | Some region \<Rightarrow>
          Some \<lparr>pixels = filled128 L (if textureSource part = SrcPants then ''#3d5a80''
                                      else ''#ffffff''),
                version = 1\<rparr>)"

definition faceMaterial :: "part_name \<Rightarrow> body_part \<Rightarrow> face \<Rightarrow> material" where
  "faceMaterial partName part faceName =
     (case faces part faceName of
        None \<Rightarrow> SkinMaterial
      | Some region \<Rightarrow> FaceMaterial partName faceName)"

definition createPart :: "'img lib \<Rightarrow> 'img editor \<Rightarrow> part_name \<Rightarrow> 'img editor" where
  "createPart L ed partName =
     (let part = BODY_PARTS partName
      in ed\<lparr>faceTex := (faceTex ed)(partName := createFace L part),
            bodyMeshes := (bodyMeshes ed)(partName :=
               Some (map (faceMaterial partName part) FACE_ORDER))\<rparr>)"

definition initEditor :: "'img lib \<Rightarrow> 'img editor" where
  "initEditor L =
     foldl (createPart L)
       \<lparr>currentMode = Shirt, shirtCanvas = initCanvas L, pantsCanvas = initCanvas L,
        faceTex = (\<lambda>p f. None), bodyMeshes = (\<lambda>p. None),
        shirtHidden = False, pantsHidden = True,
        modeLabel = (''Currently editing: SHIRT (Torso + Arms)'', ''mode-indicator shirt''),
        torsoOnlyHidden = False,
        legend = [''Torso'', ''Right Arm'', ''Left Arm'']\<rparr>
       PART_NAMES"

section \<open>Rasterising a canvas and synchronising the textures\<close>

text \<open>
  \<^verbatim>\<open>getCleanCanvasElement\<close>: the guides are made invisible and the selection is
  discarded, the canvas is rendered to a new buffer, then every guide is made
  visible and the object that was active, if there was one, is made active again.
  The result is the buffer and the canvas as the function leaves it.
\<close>

definition set_guides_visible :: "bool \<Rightarrow> 'img fobj list \<Rightarrow> 'img fobj list" where
  "set_guides_visible v obs = map (\<lambda>ob. if isGuide ob then ob\<lparr>visible := v\<rparr> else ob) obs"

definition getCleanCanvasElement :: "'img lib \<Rightarrow> 'img fcanvas \<Rightarrow> 'img \<times> 'img fcanvas" where
  "getCleanCanvasElement L fabricCanvas =
     (let hidden = fabricCanvas\<lparr>objects := set_guides_visible False (objects fabricCanvas)\<rparr>;
          activeObj = activeObject hidden;
          discarded = hidden\<lparr>activeObject := None\<rparr>;
          canvasElement = renderCanvas L discarded;
          shown = discarded\<lparr>objects := set_guides_visible True (objects discarded)\<rparr>;
          restored = (case activeObj of
                        None \<Rightarrow> shown
                      | Some i \<Rightarrow> shown\<lparr>activeObject := Some i\<rparr>)
      in (canvasElement, restored))"

text \<open>
  The body of the inner \<^verbatim>\<open>FACE_ORDER.forEach\<close> of \<^verbatim>\<open>updateAllTextures\<close>: a face
  without a region or without a canvas is skipped; else the face canvas is
  filled with white, the region of the source is drawn over it, and the
  texture is marked for upload.
\<close>

definition updateFace ::
  "'img lib \<Rightarrow> 'img \<Rightarrow> part_name \<Rightarrow> body_part \<Rightarrow> 'img editor \<Rightarrow> face \<Rightarrow> 'img editor" where
  "updateFace L sourceCanvas partName part ed faceName =
     (case faces part faceName of
        None \<Rightarrow> ed
      | Some region \<Rightarrow>
          (case faceTex ed partName faceName of
             None \<Rightarrow> ed
           | Some t \<Rightarrow>
               ed\<lparr>faceTex := (faceTex ed)(partName := (faceTex ed partName)(faceName :=
                    Some \<lparr>pixels = drawImage L sourceCanvas region (filled128 L ''#ffffff''),
                          version = version t + 1\<rparr>))\<rparr>))"

definition updatePart :: "'img lib \<Rightarrow> 'img \<Rightarrow> 'img \<Rightarrow> 'img editor \<Rightarrow> part_name \<Rightarrow> 'img editor" where
  "updatePart L shirtCanvasEl pantsCanvasEl ed partName =
     (let part = BODY_PARTS partName
      in case textureSource part of
           SrcShirt \<Rightarrow> foldl (updateFace L shirtCanvasEl partName part) ed FACE_ORDER
         | SrcPants \<Rightarrow> foldl (updateFace L pantsCanvasEl partName part) ed FACE_ORDER
         | SrcNone \<Rightarrow> ed)"

definition updateAllTextures :: "'img lib \<Rightarrow> 'img editor \<Rightarrow> 'img editor" where
  "updateAllTextures L ed =
     (let (shirtCanvasEl, sc) = getCleanCanvasElement L (shirtCanvas ed);
          (pantsCanvasEl, pc) = getCleanCanvasElement L (pantsCanvas ed)
      in foldl (updatePart L shirtCanvasEl pantsCanvasEl)
           (ed\<lparr>shirtCanvas := sc, pantsCanvas := pc\<rparr>) PART_NAMES)"

section \<open>The operations of the editor\<close>

text \<open>\<^verbatim>\<open>switchMode\<close>: only the mode and the page change.\<close>

definition switchMode :: "channel \<Rightarrow> 'img editor \<Rightarrow> 'img editor" where
  "switchMode newMode ed =
     (if newMode = currentMode ed then ed
      else ed\<lparr>currentMode := newMode,
              shirtHidden := (newMode \<noteq> Shirt),
              pantsHidden := (newMode = Shirt),
              modeLabel := (if newMode = Shirt
                 then (''Currently editing: SHIRT (Torso + Arms)'', ''mode-indicator shirt'')
                 else (''Currently editing: PANTS (Legs)'', ''mode-indicator pants'')),
              torsoOnlyHidden := (newMode \<noteq> Shirt),
              legend := (if newMode = Shirt then [''Torso'', ''Right Arm'', ''Left Arm'']
                         else [''Right Leg'', ''Left Leg''])\<rparr>)"

text \<open>
  The callback of the file upload, for a decoded image of natural size
  \<open>w\<close> x \<open>h\<close>.  \<^verbatim>\<open>img.scaleToWidth(128)\<close> sets both scale factors to
  \<open>128 / width\<close> (the object is neither rotated nor stroked).  \<^verbatim>\<open>canvas.add\<close>
  fires \<^verbatim>\<open>object:added\<close>, whose handler is \<open>updateAllTextures\<close>; the callback
  then selects the image, brings it to the front and synchronises once more.
\<close>

definition new_image :: "'img \<Rightarrow> nat \<Rightarrow> nat \<Rightarrow> 'img fobj" where
  "new_image img w h =
     \<lparr>shape = ImageShape img, oleft = 128, otop = 128,
      width = of_nat w, height = of_nat h,
      scaleX = js_div 128 (of_nat w), scaleY = js_div 128 (of_nat w), angle = 0,
      visible = True, selectable = True, evented = True, isGuide = False\<rparr>"

definition upload :: "'img lib \<Rightarrow> 'img \<Rightarrow> nat \<Rightarrow> nat \<Rightarrow> 'img editor \<Rightarrow> 'img editor" where
  "upload L img w h ed =
     (let canvas = getActiveCanvas ed;
          added = canvas\<lparr>objects := objects canvas @ [new_image img w h]\<rparr>;
          ed1 = updateAllTextures L (putActiveCanvas added ed);
          canvas1 = getActiveCanvas ed1;
          i = length (objects canvas1) - 1;
          selected = canvas1\<lparr>activeObject := Some i\<rparr>
      in updateAllTextures L (putActiveCanvas (bringToFront i selected) ed1))"

text \<open>
  \<^verbatim>\<open>fitToZone\<close>.  The result is the text of the alert, if one is shown, and the
  state.  Without a selection the user is told to select an image; a name that
  is not a fit zone returns silently.
\<close>

definition fit_object :: "region \<Rightarrow> 'img fobj \<Rightarrow> 'img fobj" where
  "fit_object z ob =
     ob\<lparr>oleft := of_int (rx z), otop := of_int (ry z),
        scaleX := js_div (of_int (rw z)) (width ob),
        scaleY := js_div (of_int (rh z)) (height ob)\<rparr>"

definition fitToZone :: "'img lib \<Rightarrow> string \<Rightarrow> 'img editor \<Rightarrow> string option \<times> 'img editor" where
  "fitToZone L zoneName ed =
     (let canvas = getActiveCanvas ed
      in case activeObject canvas of
           None \<Rightarrow> (Some ''Select an image first!'', ed)
         | Some i \<Rightarrow>
             (case FIT_ZONES zoneName of
                None \<Rightarrow> (None, ed)
              | Some z \<Rightarrow>
                  (let fitted = canvas\<lparr>objects :=
                         (objects canvas)[i := fit_object z (objects canvas ! i)]\<rparr>
                   in (None, updateAllTextures L
                               (putActiveCanvas (bringToFront i fitted) ed)))))"

text \<open>
  \<^verbatim>\<open>deleteSelected\<close>.  \<^verbatim>\<open>canvas.remove\<close> fires \<^verbatim>\<open>object:removed\<close>, whose handler
  is \<open>updateAllTextures\<close>; the function then discards the selection and
  synchronises once more.
\<close>

definition deleteSelected :: "'img lib \<Rightarrow> 'img editor \<Rightarrow> string option \<times> 'img editor" where
  "deleteSelected L ed =
     (let canvas = getActiveCanvas ed
      in case activeObject canvas of
           None \<Rightarrow> (Some ''Select an image to delete!'', ed)
         | Some i \<Rightarrow>
             if isGuide (objects canvas ! i) then (Some ''Cannot delete guide elements!'', ed)
             else
               (let ed1 = updateAllTextures L (putActiveCanvas (remove_object i canvas) ed);
                    canvas1 = getActiveCanvas ed1
                in (None, updateAllTextures L
                            (putActiveCanvas (canvas1\<lparr>activeObject := None\<rparr>) ed1))))"

section \<open>Export\<close>

text \<open>
  Strings of the script are sequences of code units; the model covers the code
  units below 256.  \<^verbatim>\<open>trim\<close> removes the white space and line terminators of
  ECMAScript at both ends: tab, line feed, vertical tab, form feed, carriage
  return, space and the no-break space.  \<^verbatim>\<open>toLowerCase\<close> maps the capital
  letters of Latin-1 to their small letters.
\<close>

definition is_js_space :: "char \<Rightarrow> bool" where
  "is_js_space c \<longleftrightarrow> of_char c \<in> {9, 10, 11, 12, 13, 32, 160 :: nat}"

definition trim :: "string \<Rightarrow> string" where
  "trim s = rev (dropWhile is_js_space (rev (dropWhile is_js_space s)))"

definition lower_char :: "char \<Rightarrow> char" where
  "lower_char c =
     (let n = of_char c :: nat
      in if (65 \<le> n \<and> n \<le> 90) \<or> (192 \<le> n \<and> n \<le> 222 \<and> n \<noteq> 215) then char_of (n + 32)
         else c)"

definition toLowerCase :: "string \<Rightarrow> string" where
  "toLowerCase s = map lower_char s"

definition endsWith :: "string \<Rightarrow> string \<Rightarrow> bool" where
  "endsWith s suffix \<longleftrightarrow>
     length suffix \<le> length s \<and> drop (length s - length suffix) s = suffix"

text \<open>
  The file name that \<^verbatim>\<open>downloadTexture\<close> gives the link, from the answer to the
  prompt: \<^verbatim>\<open>filename.trim() || defaultName\<close>, then the extension.
\<close>

definition resolve_filename :: "string \<Rightarrow> string \<Rightarrow> string" where
  "resolve_filename defaultName answer =
     (let filename = (if trim answer = [] then defaultName else trim answer)
      in if \<not> endsWith (toLowerCase filename) ''.png'' then filename @ ''.png''
         else filename)"

text \<open>
  \<^verbatim>\<open>downloadTexture(type)\<close>.  \<open>answer\<close> is what \<^verbatim>\<open>prompt\<close> returns: \<^const>\<open>None\<close>
  when the user cancels.  The result is the download the link triggers, a file
  name with the raster that is encoded as PNG, and the state.
\<close>

definition downloadTexture ::
  "'img lib \<Rightarrow> string \<Rightarrow> string option \<Rightarrow> 'img editor \<Rightarrow> (string \<times> 'img) option \<times> 'img editor" where
  "downloadTexture L type answer ed =
     (let (cleanCanvas, canvas) =
            getCleanCanvasElement L (if type = ''shirt'' then shirtCanvas ed else pantsCanvas ed);
          ed1 = (if type = ''shirt'' then ed\<lparr>shirtCanvas := canvas\<rparr>
                 else ed\<lparr>pantsCanvas := canvas\<rparr>);
          defaultName = (if type = ''shirt'' then ''roblox_shirt_design''
                         else ''roblox_pants_design'')
      in case answer of
           None \<Rightarrow> (None, ed1)
         | Some filename \<Rightarrow> (Some (resolve_filename defaultName filename, cleanCanvas), ed1))"

section \<open>The invariant of the editor and the notions of the statements\<close>

text \<open>
  Every guide of the canvas is visible.  \<open>initCanvas\<close> creates the guides visible
  and only \<open>getCleanCanvasElement\<close> writes the flag, which it leaves true.
\<close>

definition guides_visible :: "'img fcanvas \<Rightarrow> bool" where
  "guides_visible c \<longleftrightarrow> list_all (\<lambda>ob. isGuide ob \<longrightarrow> visible ob) (objects c)"

text \<open>
  What one pass of \<open>updateFace\<close> leaves in the entry of a face: nothing new for a
  face without a region or without a canvas, else the white fill overdrawn with
  the region of the source, under the next version.
\<close>

definition synced_face :: "'img lib \<Rightarrow> 'img \<Rightarrow> region \<Rightarrow> 'img face_texture \<Rightarrow> 'img face_texture" where
  "synced_face L src r t =
     \<lparr>pixels = drawImage L src r (filled128 L ''#ffffff''), version = version t + 1\<rparr>"

definition synced_tex ::
  "'img lib \<Rightarrow> 'img \<Rightarrow> region option \<Rightarrow> 'img face_texture option \<Rightarrow> 'img face_texture option" where
  "synced_tex L src ro to =
     (case ro of None \<Rightarrow> to | Some r \<Rightarrow> map_option (synced_face L src r) to)"

text \<open>The source buffer a part reads.\<close>

definition part_synced ::
  "'img lib \<Rightarrow> 'img \<Rightarrow> 'img \<Rightarrow> part_name \<Rightarrow> face \<Rightarrow> 'img face_texture option \<Rightarrow> 'img face_texture option" where
  "part_synced L shirtEl pantsEl p f to =
     (case textureSource (BODY_PARTS p) of
        SrcShirt \<Rightarrow> synced_tex L shirtEl (faces (BODY_PARTS p) f) to
      | SrcPants \<Rightarrow> synced_tex L pantsEl (faces (BODY_PARTS p) f) to
      | SrcNone \<Rightarrow> to)"

text \<open>The canvas a texture source names, and its guide-hidden raster.\<close>

definition source_canvas :: "texture_source \<Rightarrow> 'img editor \<Rightarrow> 'img fcanvas option" where
  "source_canvas src ed =
     (case src of SrcShirt \<Rightarrow> Some (shirtCanvas ed) | SrcPants \<Rightarrow> Some (pantsCanvas ed)
      | SrcNone \<Rightarrow> None)"

definition clean_raster_of :: "'img lib \<Rightarrow> 'img fcanvas \<Rightarrow> 'img" where
  "clean_raster_of L c = fst (getCleanCanvasElement L c)"

text \<open>
  The invariant of a canvas: its guides are visible, and the active object, if
  there is one, is an object of the canvas that is not a guide (guides are not
  selectable, and the script selects uploaded images only).  The invariant of
  the editor: both canvases satisfy theirs, and a face has a canvas and a
  texture exactly when the body part declares a region for it.
\<close>

definition canvas_ok :: "'img fcanvas \<Rightarrow> bool" where
  "canvas_ok c \<longleftrightarrow>
     guides_visible c \<and>
     (case activeObject c of
        None \<Rightarrow> True
      | Some i \<Rightarrow> i < length (objects c) \<and> \<not> isGuide (objects c ! i))"

definition textures_allocated :: "'img editor \<Rightarrow> bool" where
  "textures_allocated ed \<longleftrightarrow>
     list_all (\<lambda>p. list_all (\<lambda>f. (faceTex ed p f = None) = (faces (BODY_PARTS p) f = None))
        FACE_ORDER) PART_NAMES"

definition editor_ok :: "'img editor \<Rightarrow> bool" where
  "editor_ok ed \<longleftrightarrow>
     canvas_ok (shirtCanvas ed) \<and> canvas_ok (pantsCanvas ed) \<and> textures_allocated ed"

text \<open>The canvas that is not being edited.\<close>

definition otherCanvas :: "'img editor \<Rightarrow> 'img fcanvas" where
  "otherCanvas ed = (if currentMode ed = Shirt then pantsCanvas ed else shirtCanvas ed)"

text \<open>
  The mapped textures show the canvases: every face with a region holds the white
  fill overdrawn with its region of the guide-hidden raster of its source canvas.
\<close>

definition face_in_sync :: "'img lib \<Rightarrow> 'img editor \<Rightarrow> part_name \<Rightarrow> face \<Rightarrow> bool" where
  "face_in_sync L ed p f =
     (case source_canvas (textureSource (BODY_PARTS p)) ed of
        None \<Rightarrow> True
      | Some c \<Rightarrow>
          (case faces (BODY_PARTS p) f of
             None \<Rightarrow> True
           | Some r \<Rightarrow>
               map_option pixels (faceTex ed p f) =
                 Some (drawImage L (clean_raster_of L c) r (filled128 L ''#ffffff''))))"

definition in_sync :: "'img lib \<Rightarrow> 'img editor \<Rightarrow> bool" where
  "in_sync L ed \<longleftrightarrow> list_all (\<lambda>p. list_all (face_in_sync L ed p) FACE_ORDER) PART_NAMES"

text \<open>
  An instance of the library on which the model can be evaluated: a buffer is one
  opaque colour, the case of images all of whose pixels have the same opaque
  colour.  The background without an image is the background colour, an object
  covers the sheet with its colour, and drawing an opaque source replaces the
  destination.
\<close>

definition flat_lib :: "string lib" where
  "flat_lib =
     \<lparr>measureText = (\<lambda>s. (of_nat (8 * length s), 16)),
      paintBackground = (\<lambda>c bg. case bg of None \<Rightarrow> c | Some im \<Rightarrow> im),
      paintObject = (\<lambda>ob im. case shape ob of
                       TextShape l c \<Rightarrow> c | RectShape c \<Rightarrow> c | ImageShape i \<Rightarrow> i),
      paintControls = (\<lambda>ob im. ''#b2ccff''),
      filled128 = (\<lambda>c. c),
      drawImage = (\<lambda>src r dst. src)\<rparr>"

section \<open>The logo mode of the generator (the Python functions of src/app.py)\<close>

text \<open>
  A Pillow image in mode RGBA: its size (width, height) and its pixels, four bytes
  each, read by \<open>getpixel im x y\<close> for \<open>x\<close> below the width and \<open>y\<close> below the
  height.  Pillow is not part of the repository.  What it computes on one pixel
  is a parameter, held in the record \<open>pil\<close>:
  \<^item> \<open>resample im size\<close>: the pixels of \<^verbatim>\<open>im.resize(size, LANCZOS)\<close>, whose size is
    \<open>size\<close>;
  \<^item> \<open>blend m d s\<close>: the pixel that \<^verbatim>\<open>paste\<close> writes over the pixel \<open>d\<close> for the
    source pixel \<open>s\<close> under the mask value \<open>m\<close>;
  \<^item> \<open>over d s\<close>: the pixel of \<^verbatim>\<open>Image.alpha_composite\<close> for the pixel \<open>s\<close> of the
    second image over the pixel \<open>d\<close> of the first.
\<close>

type_synonym rgba = "8 word \<times> 8 word \<times> 8 word \<times> 8 word"

definition red :: "rgba \<Rightarrow> 8 word" where
  "red p = fst p"

definition green :: "rgba \<Rightarrow> 8 word" where
  "green p = fst (snd p)"

definition blue :: "rgba \<Rightarrow> 8 word" where
  "blue p = fst (snd (snd p))"

definition alpha :: "rgba \<Rightarrow> 8 word" where
  "alpha p = snd (snd (snd p))"

record image =
  isize :: "nat \<times> nat"
  getpixel :: "nat \<Rightarrow> nat \<Rightarrow> rgba"

record pil =
  resample :: "image \<Rightarrow> nat \<times> nat \<Rightarrow> nat \<Rightarrow> nat \<Rightarrow> rgba"
  blend :: "8 word \<Rightarrow> rgba \<Rightarrow> rgba \<Rightarrow> rgba"
  over :: "rgba \<Rightarrow> rgba \<Rightarrow> rgba"

datatype py_exception = ZeroDivisionError | ValueError | OSError

definition ROBLOX_WIDTH :: nat where
  "ROBLOX_WIDTH = 585"

definition ROBLOX_HEIGHT :: nat where
  "ROBLOX_HEIGHT = 559"

definition LOGO_X :: nat where
  "LOGO_X = 231"

definition LOGO_Y :: nat where
  "LOGO_Y = 74"

definition LOGO_SIZE :: nat where
  "LOGO_SIZE = 128"

text \<open>\<^verbatim>\<open>im.resize(size, Image.Resampling.LANCZOS)\<close>.\<close>

definition resize :: "pil \<Rightarrow> image \<Rightarrow> nat \<times> nat \<Rightarrow> image" where
  "resize P im size' = \<lparr>isize = size', getpixel = resample P im size'\<rparr>"

text \<open>\<^verbatim>\<open>Image.new("RGBA", size, color)\<close>.\<close>

definition new_rgba :: "nat \<times> nat \<Rightarrow> rgba \<Rightarrow> image" where
  "new_rgba size' c = \<lparr>isize = size', getpixel = (\<lambda>x y. c)\<rparr>"

text \<open>
  The sum of one band over all pixels of an image, which \<^verbatim>\<open>ImageStat.Stat\<close>
  divides by the number of pixels to give the mean of the band.
\<close>

definition band_sum :: "(rgba \<Rightarrow> 8 word) \<Rightarrow> image \<Rightarrow> nat" where
  "band_sum band im =
     sum_list (map (\<lambda>y. sum_list (map (\<lambda>x. unat (band (getpixel im x y)))
                                   [0..<fst (isize im)]))
                [0..<snd (isize im)])"

text \<open>
  \<^verbatim>\<open>get_average_color\<close>: the image is converted to RGB, which drops the alpha
  band and keeps the other three; \<^verbatim>\<open>stat.mean\<close> divides the sum of each band
  by the number of pixels, which raises \<^verbatim>\<open>ZeroDivisionError\<close> for an image
  without pixels; \<^verbatim>\<open>int\<close> truncates the mean, which is not negative, to its
  integer part, the quotient of the integer division.  (The mean is a double;
  for the logo the number of pixels is \<open>2^14\<close> and the division is exact.)
\<close>

definition get_average_color :: "image \<Rightarrow> py_exception + nat \<times> nat \<times> nat" where
  "get_average_color im =
     (let count = fst (isize im) * snd (isize im)
      in if count = 0 then Inl ZeroDivisionError
         else Inr (band_sum red im div count, band_sum green im div count,
                   band_sum blue im div count))"

text \<open>
  \<^verbatim>\<open>base.paste(im, (x0, y0), mask=im)\<close>: inside the box that the pasted image
  covers, every pixel is blended with the pixel of the pasted image under its
  own alpha; outside, the pixel is kept.
\<close>

definition paste_masked :: "pil \<Rightarrow> image \<Rightarrow> image \<Rightarrow> nat \<times> nat \<Rightarrow> image" where
  "paste_masked P base im pos =
     base\<lparr>getpixel := (\<lambda>x y.
        if fst pos \<le> x \<and> x < fst pos + fst (isize im) \<and> snd pos \<le> y \<and> y < snd pos + snd (isize im)
        then blend P (alpha (getpixel im (x - fst pos) (y - snd pos))) (getpixel base x y)
               (getpixel im (x - fst pos) (y - snd pos))
        else getpixel base x y)\<rparr>"

definition create_logo_mode_image :: "pil \<Rightarrow> image \<Rightarrow> py_exception + image" where
  "create_logo_mode_image P ai_image =
     (let logo = resize P ai_image (LOGO_SIZE, LOGO_SIZE)
      in case get_average_color logo of
           Inl e \<Rightarrow> Inl e
         | Inr (r, g, b) \<Rightarrow>
             (let base = new_rgba (ROBLOX_WIDTH, ROBLOX_HEIGHT) (of_nat r, of_nat g, of_nat b, 255)
              in Inr (paste_masked P base logo (LOGO_X, LOGO_Y))))"

text \<open>
  \<^verbatim>\<open>Image.alpha_composite(im1, im2)\<close> raises \<^verbatim>\<open>ValueError\<close> when the sizes of the
  two images differ.
\<close>

definition alpha_composite :: "pil \<Rightarrow> image \<Rightarrow> image \<Rightarrow> py_exception + image" where
  "alpha_composite P im1 im2 =
     (if isize im1 \<noteq> isize im2 then Inl ValueError
      else Inr \<lparr>isize = isize im1,
                getpixel = (\<lambda>x y. over P (getpixel im1 x y) (getpixel im2 x y))\<rparr>)"

text \<open>
  \<^verbatim>\<open>apply_template_overlay\<close>.  \<open>template\<close> is what opening the template file and
  converting it to RGBA gives: an image, or the exception raised for a file
  that is missing or unreadable.  Every exception inside the \<^verbatim>\<open>try\<close> block ends
  in the handler, which warns and returns the base image.
\<close>

definition apply_template_overlay :: "pil \<Rightarrow> py_exception + image \<Rightarrow> image \<Rightarrow> image" where
  "apply_template_overlay P template base_image =
     (case template of
        Inl e \<Rightarrow> base_image
      | Inr opened \<Rightarrow>
          (let overlay = (if isize opened \<noteq> (ROBLOX_WIDTH, ROBLOX_HEIGHT)
                          then resize P opened (ROBLOX_WIDTH, ROBLOX_HEIGHT) else opened)
           in case alpha_composite P base_image overlay of
                Inl e \<Rightarrow> base_image
              | Inr final \<Rightarrow> final))"

text \<open>
  The logo mode of \<^verbatim>\<open>main\<close>: the base image of \<^verbatim>\<open>create_logo_mode_image\<close>, then
  the overlay.
\<close>

definition logo_mode :: "pil \<Rightarrow> py_exception + image \<Rightarrow> image \<Rightarrow> py_exception + image" where
  "logo_mode P template ai_image =
     (case create_logo_mode_image P ai_image of
        Inl e \<Rightarrow> Inl e
      | Inr base_image \<Rightarrow> Inr (apply_template_overlay P template base_image))"

text \<open>The overlay that is composited: the opened template, resized when its size differs.\<close>

definition fitted_overlay :: "pil \<Rightarrow> image \<Rightarrow> image" where
  "fitted_overlay P opened =
     (if isize opened \<noteq> (ROBLOX_WIDTH, ROBLOX_HEIGHT)
      then resize P opened (ROBLOX_WIDTH, ROBLOX_HEIGHT) else opened)"

text \<open>
  An instance of Pillow's pixel functions on which the model can be evaluated:
  resampling takes the top left pixel, and blending and compositing take the
  source pixel where the mask or the source alpha is 255 and keep the
  destination pixel elsewhere.
\<close>

definition hard_pil :: pil where
  "hard_pil =
     \<lparr>resample = (\<lambda>im size' x y. getpixel im 0 0),
      blend = (\<lambda>m d s. if m = 255 then s else d),
      over = (\<lambda>d s. if alpha s = 255 then s else d)\<rparr>"

text \<open>The logo: the generated image resized to the logo footprint.\<close>

definition logo_of :: "pil \<Rightarrow> image \<Rightarrow> image" where
  "logo_of P ai_image = resize P ai_image (LOGO_SIZE, LOGO_SIZE)"

text \<open>
  What is assumed of \<^verbatim>\<open>Image.alpha_composite\<close> where the claim speaks of the
  precedence of the template: an opaque source pixel replaces the destination.
\<close>

definition opaque_wins :: "pil \<Rightarrow> bool" where
  "opaque_wins P \<longleftrightarrow> (\<forall>d s. alpha s = 255 \<longrightarrow> over P d s = s)"

text \<open>The flat colour of the base image: the truncated band means of the logo, opaque.\<close>

definition average_pixel :: "pil \<Rightarrow> image \<Rightarrow> rgba" where
  "average_pixel P ai_image =
     (of_nat (band_sum red (logo_of P ai_image) div 16384),
      of_nat (band_sum green (logo_of P ai_image) div 16384),
      of_nat (band_sum blue (logo_of P ai_image) div 16384), 255)"

text \<open>The base image of the logo mode, pixel by pixel.\<close>

definition logo_base :: "pil \<Rightarrow> image \<Rightarrow> image" where
  "logo_base P ai_image =
     \<lparr>isize = (585, 559),
      getpixel = (\<lambda>x y.
        if 231 \<le> x \<and> x < 359 \<and> 74 \<le> y \<and> y < 202
        then blend P (alpha (getpixel (logo_of P ai_image) (x - 231) (y - 74)))
               (average_pixel P ai_image) (getpixel (logo_of P ai_image) (x - 231) (y - 74))
        else average_pixel P ai_image)\<rparr>"

section \<open>Properties of the zone registry\<close>

lemma part_name_cases:
  "p = Torso \<or> p = RightArm \<or> p = LeftArm \<or> p = RightLeg \<or> p = LeftLeg \<or> p = Head"
  by (cases p) simp_all

text \<open>
  Claim C10.  Every face region that a body part declares lies inside its
  585 x 600 source sheet: its corner is non-negative and its right and lower
  edges do not pass 585 and 600.  The right and the left leg declare the face
  regions of the right and the left arm, and differ from them in reading the
  pants sheet where the arms read the shirt sheet.
\<close>

theorem face_regions_in_bounds:
  "(faces (BODY_PARTS p) f = Some r \<longrightarrow>
      0 \<le> rx r \<and> 0 \<le> ry r \<and> rx r + rw r \<le> CANVAS_W \<and> ry r + rh r \<le> CANVAS_H)
   \<and> faces (BODY_PARTS RightLeg) = faces (BODY_PARTS RightArm)
   \<and> faces (BODY_PARTS LeftLeg) = faces (BODY_PARTS LeftArm)
   \<and> textureSource (BODY_PARTS RightArm) = SrcShirt
   \<and> textureSource (BODY_PARTS LeftArm) = SrcShirt
   \<and> textureSource (BODY_PARTS RightLeg) = SrcPants
   \<and> textureSource (BODY_PARTS LeftLeg) = SrcPants"
proof -
  have "faces (BODY_PARTS p) f = Some r \<Longrightarrow> in_canvas r"
    by (cases p; cases f) (auto simp: in_canvas_def mk_region_def CANVAS_W_def CANVAS_H_def)
  then show ?thesis
    by (simp add: in_canvas_def)
qed

theorem face_regions_in_bounds_witness:
  "faces (BODY_PARTS LeftArm) Back = Some (mk_region 520 388 64 128)
   \<and> rx (mk_region 520 388 64 128) + rw (mk_region 520 388 64 128) \<le> CANVAS_W
   \<and> ry (mk_region 520 388 64 128) + rh (mk_region 520 388 64 128) \<le> CANVAS_H"
  using face_regions_in_bounds [of LeftArm Back "mk_region 520 388 64 128"]
  by simp

section \<open>Properties of the rasteriser and the synchroniser\<close>

lemma set_guides_visible_again:
  "set_guides_visible v (set_guides_visible u obs) = set_guides_visible v obs"
  by (induction obs) (simp_all add: set_guides_visible_def)

lemma set_guides_visible_id:
  "list_all (\<lambda>ob. isGuide ob \<longrightarrow> visible ob) obs \<Longrightarrow> set_guides_visible True obs = obs"
  by (induction obs) (simp_all add: set_guides_visible_def)

lemma foldl_paint_hidden:
  "foldl (paintVisible L) b (set_guides_visible False obs) =
   foldl (paintVisible L) b (filter (\<lambda>ob. \<not> isGuide ob) obs)"
  by (induction obs arbitrary: b) (simp_all add: set_guides_visible_def paintVisible_def)

lemma clean_raster:
  "fst (getCleanCanvasElement L c) =
   foldl (paintVisible L) (paintBackground L (backgroundColor c) (backgroundImage c)) (layers c)"
  by (simp add: getCleanCanvasElement_def renderCanvas_def Let_def foldl_paint_hidden layers_def)

lemma clean_canvas:
  "snd (getCleanCanvasElement L c) = c\<lparr>objects := set_guides_visible True (objects c)\<rparr>"
  by (cases "activeObject c")
     (simp_all add: getCleanCanvasElement_def Let_def set_guides_visible_again)

lemma clean_canvas_id:
  "guides_visible c \<Longrightarrow> snd (getCleanCanvasElement L c) = c"
  by (simp add: clean_canvas guides_visible_def set_guides_visible_id)

lemma layers_set_guides_visible:
  "filter (\<lambda>ob. \<not> isGuide ob) (set_guides_visible v obs) = filter (\<lambda>ob. \<not> isGuide ob) obs"
  by (induction obs) (simp_all add: set_guides_visible_def)

lemma clean_raster_again:
  "fst (getCleanCanvasElement L (snd (getCleanCanvasElement L c))) = fst (getCleanCanvasElement L c)"
  by (simp add: clean_raster clean_canvas layers_def layers_set_guides_visible)

lemma updateFace_faceTex:
  "faceTex (updateFace L src pn part ed fn) p f =
     (if p = pn \<and> f = fn then synced_tex L src (faces part fn) (faceTex ed p f)
      else faceTex ed p f)"
  by (simp add: updateFace_def synced_tex_def synced_face_def split: option.splits)

lemma updateFace_rest:
  "shirtCanvas (updateFace L src pn part ed fn) = shirtCanvas ed"
  "pantsCanvas (updateFace L src pn part ed fn) = pantsCanvas ed"
  "currentMode (updateFace L src pn part ed fn) = currentMode ed"
  "bodyMeshes (updateFace L src pn part ed fn) = bodyMeshes ed"
  "editor.more (updateFace L src pn part ed fn) = editor.more ed"
  "shirtHidden (updateFace L src pn part ed fn) = shirtHidden ed"
  "pantsHidden (updateFace L src pn part ed fn) = pantsHidden ed"
  "modeLabel (updateFace L src pn part ed fn) = modeLabel ed"
  "torsoOnlyHidden (updateFace L src pn part ed fn) = torsoOnlyHidden ed"
  "legend (updateFace L src pn part ed fn) = legend ed"
  by (simp_all add: updateFace_def split: option.splits)

lemma foldl_updateFace_faceTex:
  "distinct fs \<Longrightarrow>
   faceTex (foldl (updateFace L src pn part) ed fs) p f =
     (if p = pn \<and> f \<in> set fs then synced_tex L src (faces part f) (faceTex ed p f)
      else faceTex ed p f)"
proof (induction fs arbitrary: ed)
  case Nil
  then show ?case by simp
next
  case (Cons a fs)
  then show ?case
    by (auto simp: updateFace_faceTex)
qed

lemma foldl_updateFace_rest:
  "shirtCanvas (foldl (updateFace L src pn part) ed fs) = shirtCanvas ed"
  "pantsCanvas (foldl (updateFace L src pn part) ed fs) = pantsCanvas ed"
  "currentMode (foldl (updateFace L src pn part) ed fs) = currentMode ed"
  "bodyMeshes (foldl (updateFace L src pn part) ed fs) = bodyMeshes ed"
  "shirtHidden (foldl (updateFace L src pn part) ed fs) = shirtHidden ed"
  "pantsHidden (foldl (updateFace L src pn part) ed fs) = pantsHidden ed"
  "modeLabel (foldl (updateFace L src pn part) ed fs) = modeLabel ed"
  "torsoOnlyHidden (foldl (updateFace L src pn part) ed fs) = torsoOnlyHidden ed"
  "legend (foldl (updateFace L src pn part) ed fs) = legend ed"
  by (induction fs arbitrary: ed) (simp_all add: updateFace_rest)

lemma face_in_FACE_ORDER: "f \<in> set FACE_ORDER"
  by (cases f) (simp_all add: FACE_ORDER_def)

lemma distinct_FACE_ORDER: "distinct FACE_ORDER"
  by (simp add: FACE_ORDER_def)

lemma part_in_PART_NAMES: "p \<in> set PART_NAMES"
  by (cases p) (simp_all add: PART_NAMES_def)

lemma distinct_PART_NAMES: "distinct PART_NAMES"
  by (simp add: PART_NAMES_def)

lemma updatePart_faceTex:
  "faceTex (updatePart L sEl pEl ed pn) p f =
     (if p = pn then part_synced L sEl pEl p f (faceTex ed p f) else faceTex ed p f)"
  by (simp add: updatePart_def part_synced_def Let_def foldl_updateFace_faceTex
        distinct_FACE_ORDER face_in_FACE_ORDER split: texture_source.splits)

lemma updatePart_rest:
  "shirtCanvas (updatePart L sEl pEl ed pn) = shirtCanvas ed"
  "pantsCanvas (updatePart L sEl pEl ed pn) = pantsCanvas ed"
  "currentMode (updatePart L sEl pEl ed pn) = currentMode ed"
  "bodyMeshes (updatePart L sEl pEl ed pn) = bodyMeshes ed"
  "shirtHidden (updatePart L sEl pEl ed pn) = shirtHidden ed"
  "pantsHidden (updatePart L sEl pEl ed pn) = pantsHidden ed"
  "modeLabel (updatePart L sEl pEl ed pn) = modeLabel ed"
  "torsoOnlyHidden (updatePart L sEl pEl ed pn) = torsoOnlyHidden ed"
  "legend (updatePart L sEl pEl ed pn) = legend ed"
  by (simp_all add: updatePart_def Let_def foldl_updateFace_rest split: texture_source.splits)

lemma foldl_updatePart_faceTex:
  "distinct ps \<Longrightarrow>
   faceTex (foldl (updatePart L sEl pEl) ed ps) p f =
     (if p \<in> set ps then part_synced L sEl pEl p f (faceTex ed p f) else faceTex ed p f)"
proof (induction ps arbitrary: ed)
  case Nil
  then show ?case by simp
next
  case (Cons a ps)
  then show ?case
    by (auto simp: updatePart_faceTex)
qed

lemma foldl_updatePart_rest:
  "shirtCanvas (foldl (updatePart L sEl pEl) ed ps) = shirtCanvas ed"
  "pantsCanvas (foldl (updatePart L sEl pEl) ed ps) = pantsCanvas ed"
  "currentMode (foldl (updatePart L sEl pEl) ed ps) = currentMode ed"
  "bodyMeshes (foldl (updatePart L sEl pEl) ed ps) = bodyMeshes ed"
  "shirtHidden (foldl (updatePart L sEl pEl) ed ps) = shirtHidden ed"
  "pantsHidden (foldl (updatePart L sEl pEl) ed ps) = pantsHidden ed"
  "modeLabel (foldl (updatePart L sEl pEl) ed ps) = modeLabel ed"
  "torsoOnlyHidden (foldl (updatePart L sEl pEl) ed ps) = torsoOnlyHidden ed"
  "legend (foldl (updatePart L sEl pEl) ed ps) = legend ed"
  by (induction ps arbitrary: ed) (simp_all add: updatePart_rest)

lemma sync_faceTex:
  "faceTex (updateAllTextures L ed) p f =
     part_synced L (fst (getCleanCanvasElement L (shirtCanvas ed)))
       (fst (getCleanCanvasElement L (pantsCanvas ed))) p f (faceTex ed p f)"
  by (simp add: updateAllTextures_def split_beta Let_def foldl_updatePart_faceTex
        distinct_PART_NAMES part_in_PART_NAMES)

lemma sync_rest:
  "shirtCanvas (updateAllTextures L ed) = snd (getCleanCanvasElement L (shirtCanvas ed))"
  "pantsCanvas (updateAllTextures L ed) = snd (getCleanCanvasElement L (pantsCanvas ed))"
  "currentMode (updateAllTextures L ed) = currentMode ed"
  "bodyMeshes (updateAllTextures L ed) = bodyMeshes ed"
  "shirtHidden (updateAllTextures L ed) = shirtHidden ed"
  "pantsHidden (updateAllTextures L ed) = pantsHidden ed"
  "modeLabel (updateAllTextures L ed) = modeLabel ed"
  "torsoOnlyHidden (updateAllTextures L ed) = torsoOnlyHidden ed"
  "legend (updateAllTextures L ed) = legend ed"
  by (simp_all add: updateAllTextures_def split_beta Let_def foldl_updatePart_rest)

lemma sync_mapped_face:
  assumes "source_canvas (textureSource (BODY_PARTS p)) ed = Some c"
    and "faces (BODY_PARTS p) f = Some r"
    and "faceTex ed p f = Some t"
  shows "faceTex (updateAllTextures L ed) p f =
           Some \<lparr>pixels = drawImage L (clean_raster_of L c) r (filled128 L ''#ffffff''),
                 version = version t + 1\<rparr>"
  using assms
  by (simp add: sync_faceTex part_synced_def synced_tex_def synced_face_def source_canvas_def
        clean_raster_of_def split: texture_source.splits)

lemma sync_unmapped_part:
  "textureSource (BODY_PARTS p) = SrcNone \<Longrightarrow> faceTex (updateAllTextures L ed) p = faceTex ed p"
  by (rule ext) (simp add: sync_faceTex part_synced_def)

lemma sync_canvas_rasters:
  "clean_raster_of L (shirtCanvas (updateAllTextures L ed)) = clean_raster_of L (shirtCanvas ed)"
  "clean_raster_of L (pantsCanvas (updateAllTextures L ed)) = clean_raster_of L (pantsCanvas ed)"
  by (simp_all add: sync_rest clean_raster_again clean_raster_of_def)

lemma sync_pixels_twice:
  "map_option pixels (faceTex (updateAllTextures L (updateAllTextures L ed)) p f) =
   map_option pixels (faceTex (updateAllTextures L ed) p f)"
proof -
  let ?s = "fst (getCleanCanvasElement L (shirtCanvas ed))"
  let ?p = "fst (getCleanCanvasElement L (pantsCanvas ed))"
  have twice: "faceTex (updateAllTextures L (updateAllTextures L ed)) p f =
      part_synced L ?s ?p p f (part_synced L ?s ?p p f (faceTex ed p f))"
    by (simp add: sync_faceTex sync_rest clean_raster_again)
  have once: "faceTex (updateAllTextures L ed) p f = part_synced L ?s ?p p f (faceTex ed p f)"
    by (simp add: sync_faceTex)
  have "map_option pixels (part_synced L ?s ?p p f (part_synced L ?s ?p p f (faceTex ed p f))) =
        map_option pixels (part_synced L ?s ?p p f (faceTex ed p f))"
    by (cases "textureSource (BODY_PARTS p)"; cases "faces (BODY_PARTS p) f";
        cases "faceTex ed p f")
       (simp_all add: part_synced_def synced_tex_def synced_face_def)
  then show ?thesis
    by (simp only: twice once)
qed

lemma sync_canvases_twice:
  "shirtCanvas (updateAllTextures L (updateAllTextures L ed)) = shirtCanvas (updateAllTextures L ed)"
  "pantsCanvas (updateAllTextures L (updateAllTextures L ed)) = pantsCanvas (updateAllTextures L ed)"
  by (simp_all add: sync_rest clean_canvas set_guides_visible_again)

section \<open>The invariant is kept\<close>

lemma textures_allocated_iff:
  "textures_allocated ed \<longleftrightarrow> (\<forall>p f. (faceTex ed p f = None) = (faces (BODY_PARTS p) f = None))"
  by (auto simp: textures_allocated_def list_all_iff part_in_PART_NAMES face_in_FACE_ORDER)

lemma canvas_ok_clean:
  "canvas_ok c \<Longrightarrow> snd (getCleanCanvasElement L c) = c"
  by (simp add: canvas_ok_def clean_canvas_id)

lemma sync_canvases_ok:
  "canvas_ok (shirtCanvas ed) \<Longrightarrow> shirtCanvas (updateAllTextures L ed) = shirtCanvas ed"
  "canvas_ok (pantsCanvas ed) \<Longrightarrow> pantsCanvas (updateAllTextures L ed) = pantsCanvas ed"
  by (simp_all add: sync_rest canvas_ok_clean)

lemma sync_allocated:
  "textures_allocated (updateAllTextures L ed) = textures_allocated ed"
proof -
  have "(faceTex (updateAllTextures L ed) p f = None) = (faceTex ed p f = None)" for p f
    by (cases "textureSource (BODY_PARTS p)"; cases "faces (BODY_PARTS p) f")
       (simp_all add: sync_faceTex part_synced_def synced_tex_def)
  then show ?thesis
    by (simp add: textures_allocated_iff)
qed

lemma sync_editor_ok:
  "editor_ok ed \<Longrightarrow> editor_ok (updateAllTextures L ed)"
  by (simp add: editor_ok_def sync_canvases_ok sync_allocated)

lemma getActive_put:
  "getActiveCanvas (putActiveCanvas c ed) = c"
  "currentMode (putActiveCanvas c ed) = currentMode ed"
  "faceTex (putActiveCanvas c ed) = faceTex ed"
  "bodyMeshes (putActiveCanvas c ed) = bodyMeshes ed"
  by (simp_all add: getActiveCanvas_def putActiveCanvas_def)

lemma getActive_sync:
  "canvas_ok (getActiveCanvas ed) \<Longrightarrow> getActiveCanvas (updateAllTextures L ed) = getActiveCanvas ed"
  by (cases "currentMode ed = Shirt") (simp_all add: getActiveCanvas_def sync_rest canvas_ok_clean)

lemma other_put:
  "otherCanvas (putActiveCanvas c ed) = otherCanvas ed"
  by (simp add: otherCanvas_def putActiveCanvas_def)

lemma other_sync:
  "canvas_ok (otherCanvas ed) \<Longrightarrow> otherCanvas (updateAllTextures L ed) = otherCanvas ed"
  by (cases "currentMode ed = Shirt") (simp_all add: otherCanvas_def sync_rest canvas_ok_clean)

lemma editor_ok_canvases:
  "editor_ok ed \<Longrightarrow> canvas_ok (getActiveCanvas ed)"
  "editor_ok ed \<Longrightarrow> canvas_ok (otherCanvas ed)"
  by (simp_all add: editor_ok_def getActiveCanvas_def otherCanvas_def)

lemma editor_ok_put:
  "editor_ok ed \<Longrightarrow> canvas_ok c \<Longrightarrow> editor_ok (putActiveCanvas c ed)"
  by (simp add: editor_ok_def putActiveCanvas_def textures_allocated_iff)

lemma guides_visible_objects:
  "guides_visible c \<longleftrightarrow> (\<forall>ob \<in> set (objects c). isGuide ob \<longrightarrow> visible ob)"
  by (simp add: guides_visible_def list_all_iff)

lemma set_take_drop: "set (take i xs @ drop (Suc i) xs) \<subseteq> set xs"
  by (auto dest: in_set_takeD in_set_dropD)

lemma canvas_ok_bringToFront:
  assumes "canvas_ok c" "activeObject c = Some i"
  shows "canvas_ok (bringToFront i c)"
    and "objects (bringToFront i c) = take i (objects c) @ drop (Suc i) (objects c) @ [objects c ! i]"
    and "activeObject (bringToFront i c) = Some (length (objects c) - 1)"
proof -
  from assms have i: "i < length (objects c)" and ng: "\<not> isGuide (objects c ! i)"
    and gv: "guides_visible c"
    by (simp_all add: canvas_ok_def)
  show obs: "objects (bringToFront i c) = take i (objects c) @ drop (Suc i) (objects c) @ [objects c ! i]"
    using i by (simp add: bringToFront_def)
  show act: "activeObject (bringToFront i c) = Some (length (objects c) - 1)"
    using i assms(2) by (simp add: bringToFront_def moved_index_def)
  have len: "length (objects (bringToFront i c)) = length (objects c)"
    using i by (simp add: obs)
  have last: "objects (bringToFront i c) ! (length (objects c) - 1) = objects c ! i"
    using i by (simp add: obs nth_append)
  have "set (objects (bringToFront i c)) \<subseteq> set (objects c)"
    using i set_take_drop [of i "objects c"] by (auto simp: obs)
  then have "guides_visible (bringToFront i c)"
    using gv by (auto simp: guides_visible_objects)
  then show "canvas_ok (bringToFront i c)"
    using i ng last by (simp add: canvas_ok_def act len)
qed

lemma fit_object_fields:
  "isGuide (fit_object z ob) = isGuide ob"
  "visible (fit_object z ob) = visible ob"
  "width (fit_object z ob) = width ob"
  "height (fit_object z ob) = height ob"
  "shape (fit_object z ob) = shape ob"
  "oleft (fit_object z ob) = of_int (rx z)"
  "otop (fit_object z ob) = of_int (ry z)"
  "scaleX (fit_object z ob) = js_div (of_int (rw z)) (width ob)"
  "scaleY (fit_object z ob) = js_div (of_int (rh z)) (height ob)"
  by (simp_all add: fit_object_def)

lemma canvas_ok_fit:
  assumes "canvas_ok c" "activeObject c = Some i"
  shows "canvas_ok (c\<lparr>objects := (objects c)[i := fit_object z (objects c ! i)]\<rparr>)"
proof -
  from assms have i: "i < length (objects c)" and ng: "\<not> isGuide (objects c ! i)"
    and gv: "guides_visible c"
    by (simp_all add: canvas_ok_def)
  have "isGuide ob \<longrightarrow> visible ob"
    if "ob \<in> set ((objects c)[i := fit_object z (objects c ! i)])" for ob
  proof -
    from that have "ob = fit_object z (objects c ! i) \<or> ob \<in> set (objects c)"
      by (auto dest: set_update_subset_insert [THEN subsetD])
    then show ?thesis
      using gv ng by (auto simp: guides_visible_objects fit_object_fields)
  qed
  then have "guides_visible (c\<lparr>objects := (objects c)[i := fit_object z (objects c ! i)]\<rparr>)"
    by (simp add: guides_visible_objects)
  then show ?thesis
    using i ng assms(2) by (simp add: canvas_ok_def fit_object_fields)
qed

lemma fitToZone_selected:
  assumes ok: "editor_ok ed"
    and sel: "activeObject (getActiveCanvas ed) = Some i"
    and zone: "FIT_ZONES zoneName = Some z"
  shows "fst (fitToZone L zoneName ed) = None"
    and "objects (getActiveCanvas (snd (fitToZone L zoneName ed))) =
           take i (objects (getActiveCanvas ed)) @ drop (Suc i) (objects (getActiveCanvas ed)) @
           [fit_object z (objects (getActiveCanvas ed) ! i)]"
    and "activeObject (getActiveCanvas (snd (fitToZone L zoneName ed))) =
           Some (length (objects (getActiveCanvas ed)) - 1)"
    and "otherCanvas (snd (fitToZone L zoneName ed)) = otherCanvas ed"
    and "currentMode (snd (fitToZone L zoneName ed)) = currentMode ed"
    and "editor_ok (snd (fitToZone L zoneName ed))"
proof -
  let ?c = "getActiveCanvas ed"
  let ?fitted = "?c\<lparr>objects := (objects ?c)[i := fit_object z (objects ?c ! i)]\<rparr>"
  let ?front = "bringToFront i ?fitted"
  have cok: "canvas_ok ?c"
    using ok by (rule editor_ok_canvases)
  then have i: "i < length (objects ?c)"
    using sel by (simp add: canvas_ok_def)
  have fok: "canvas_ok ?fitted"
    using cok sel by (rule canvas_ok_fit)
  have fsel: "activeObject ?fitted = Some i"
    using sel by simp
  note front = canvas_ok_bringToFront [OF fok fsel]
  have res: "fitToZone L zoneName ed = (None, updateAllTextures L (putActiveCanvas ?front ed))"
    using sel zone by (simp add: fitToZone_def Let_def)
  have pok: "editor_ok (putActiveCanvas ?front ed)"
    using ok front(1) by (rule editor_ok_put)
  have act: "getActiveCanvas (updateAllTextures L (putActiveCanvas ?front ed)) = ?front"
    using front(1) by (simp add: getActive_sync getActive_put)
  show "fst (fitToZone L zoneName ed) = None"
    by (simp add: res)
  show "objects (getActiveCanvas (snd (fitToZone L zoneName ed))) =
           take i (objects ?c) @ drop (Suc i) (objects ?c) @ [fit_object z (objects ?c ! i)]"
    using i by (simp add: res act front(2))
  show "activeObject (getActiveCanvas (snd (fitToZone L zoneName ed))) =
           Some (length (objects ?c) - 1)"
    using front(3) by (simp add: res act)
  show "otherCanvas (snd (fitToZone L zoneName ed)) = otherCanvas ed"
    using ok by (simp add: res other_sync other_put editor_ok_canvases)
  show "currentMode (snd (fitToZone L zoneName ed)) = currentMode ed"
    by (simp add: res sync_rest getActive_put)
  show "editor_ok (snd (fitToZone L zoneName ed))"
    using pok by (simp add: res sync_editor_ok)
qed

lemma new_image_fields:
  "isGuide (new_image img w h) = False"
  "visible (new_image img w h) = True"
  "width (new_image img w h) = of_nat w"
  "height (new_image img w h) = of_nat h"
  by (simp_all add: new_image_def)

lemma upload_result:
  assumes ok: "editor_ok ed"
  shows "objects (getActiveCanvas (upload L img w h ed)) =
           objects (getActiveCanvas ed) @ [new_image img w h]"
    and "activeObject (getActiveCanvas (upload L img w h ed)) =
           Some (length (objects (getActiveCanvas ed)))"
    and "otherCanvas (upload L img w h ed) = otherCanvas ed"
    and "currentMode (upload L img w h ed) = currentMode ed"
    and "editor_ok (upload L img w h ed)"
proof -
  let ?c = "getActiveCanvas ed"
  let ?n = "length (objects ?c)"
  let ?added = "?c\<lparr>objects := objects ?c @ [new_image img w h]\<rparr>"
  let ?ed1 = "updateAllTextures L (putActiveCanvas ?added ed)"
  let ?selected = "?added\<lparr>activeObject := Some ?n\<rparr>"
  let ?front = "bringToFront ?n ?selected"
  have cok: "canvas_ok ?c"
    using ok by (rule editor_ok_canvases)
  have aok: "canvas_ok ?added"
    using cok
    by (auto simp: canvas_ok_def guides_visible_objects new_image_fields nth_append
          split: option.splits)
  have sok: "canvas_ok ?selected"
    using cok by (auto simp: canvas_ok_def guides_visible_objects new_image_fields)
  have ed1ok: "editor_ok ?ed1"
    using ok aok by (simp add: sync_editor_ok editor_ok_put)
  have act1: "getActiveCanvas ?ed1 = ?added"
    using aok by (simp add: getActive_sync getActive_put)
  note front = canvas_ok_bringToFront [OF sok, of ?n]
  have res: "upload L img w h ed = updateAllTextures L (putActiveCanvas ?front ?ed1)"
    by (simp add: upload_def Let_def act1)
  have act: "getActiveCanvas (upload L img w h ed) = ?front"
    using front(1) by (simp add: res getActive_sync getActive_put)
  show "objects (getActiveCanvas (upload L img w h ed)) = objects ?c @ [new_image img w h]"
    by (simp add: act front(2))
  show "activeObject (getActiveCanvas (upload L img w h ed)) = Some ?n"
    using front(3) by (simp add: act)
  show "otherCanvas (upload L img w h ed) = otherCanvas ed"
    using ok ed1ok by (simp add: res other_sync other_put editor_ok_canvases)
  show "currentMode (upload L img w h ed) = currentMode ed"
    by (simp add: res sync_rest getActive_put)
  show "editor_ok (upload L img w h ed)"
    using ed1ok front(1) by (simp add: res sync_editor_ok editor_ok_put)
qed

lemma canvas_ok_remove:
  assumes "canvas_ok c" "activeObject c = Some i"
  shows "canvas_ok (remove_object i c)"
    and "objects (remove_object i c) = take i (objects c) @ drop (Suc i) (objects c)"
    and "activeObject (remove_object i c) = None"
proof -
  from assms have i: "i < length (objects c)" and gv: "guides_visible c"
    by (simp_all add: canvas_ok_def)
  show obs: "objects (remove_object i c) = take i (objects c) @ drop (Suc i) (objects c)"
    using i by (simp add: remove_object_def)
  show act: "activeObject (remove_object i c) = None"
    using i assms(2) by (simp add: remove_object_def removed_index_def)
  have "set (objects (remove_object i c)) \<subseteq> set (objects c)"
    using set_take_drop [of i "objects c"] by (simp add: obs)
  then have "guides_visible (remove_object i c)"
    using gv by (auto simp: guides_visible_objects)
  then show "canvas_ok (remove_object i c)"
    by (simp add: canvas_ok_def act)
qed

lemma deleteSelected_layer:
  assumes ok: "editor_ok ed"
    and sel: "activeObject (getActiveCanvas ed) = Some i"
  shows "fst (deleteSelected L ed) = None"
    and "objects (getActiveCanvas (snd (deleteSelected L ed))) =
           take i (objects (getActiveCanvas ed)) @ drop (Suc i) (objects (getActiveCanvas ed))"
    and "activeObject (getActiveCanvas (snd (deleteSelected L ed))) = None"
    and "otherCanvas (snd (deleteSelected L ed)) = otherCanvas ed"
    and "currentMode (snd (deleteSelected L ed)) = currentMode ed"
    and "editor_ok (snd (deleteSelected L ed))"
proof -
  let ?c = "getActiveCanvas ed"
  let ?removed = "remove_object i ?c"
  let ?ed1 = "updateAllTextures L (putActiveCanvas ?removed ed)"
  have cok: "canvas_ok ?c"
    using ok by (rule editor_ok_canvases)
  then have ng: "\<not> isGuide (objects ?c ! i)"
    using sel by (simp add: canvas_ok_def)
  note rem = canvas_ok_remove [OF cok sel]
  have ed1ok: "editor_ok ?ed1"
    using ok rem(1) by (simp add: sync_editor_ok editor_ok_put)
  have act1: "getActiveCanvas ?ed1 = ?removed"
    using rem(1) by (simp add: getActive_sync getActive_put)
  have same: "?removed\<lparr>activeObject := None\<rparr> = ?removed"
    using rem(3) by simp
  have res: "deleteSelected L ed = (None, updateAllTextures L (putActiveCanvas ?removed ?ed1))"
    using sel ng by (simp add: deleteSelected_def Let_def act1 same)
  have act: "getActiveCanvas (snd (deleteSelected L ed)) = ?removed"
    using rem(1) by (simp add: res getActive_sync getActive_put)
  show "fst (deleteSelected L ed) = None"
    by (simp add: res)
  show "objects (getActiveCanvas (snd (deleteSelected L ed))) =
           take i (objects ?c) @ drop (Suc i) (objects ?c)"
    by (simp add: act rem(2))
  show "activeObject (getActiveCanvas (snd (deleteSelected L ed))) = None"
    by (simp add: act rem(3))
  show "otherCanvas (snd (deleteSelected L ed)) = otherCanvas ed"
    using ok ed1ok by (simp add: res other_sync other_put editor_ok_canvases)
  show "currentMode (snd (deleteSelected L ed)) = currentMode ed"
    by (simp add: res sync_rest getActive_put)
  show "editor_ok (snd (deleteSelected L ed))"
    using ed1ok rem(1) by (simp add: res sync_editor_ok editor_ok_put)
qed

section \<open>The initial state and the synchronised state\<close>

lemma in_sync_iff:
  "in_sync L ed \<longleftrightarrow> (\<forall>p f. face_in_sync L ed p f)"
  by (auto simp: in_sync_def list_all_iff part_in_PART_NAMES face_in_FACE_ORDER)

lemma sync_in_sync:
  assumes "textures_allocated ed"
  shows "in_sync L (updateAllTextures L ed)"
proof -
  have "face_in_sync L (updateAllTextures L ed) p f" for p f
  proof (cases "faces (BODY_PARTS p) f")
    case None
    then show ?thesis
      by (simp add: face_in_sync_def split: option.splits)
  next
    case (Some r)
    with assms have "faceTex ed p f \<noteq> None"
      by (simp add: textures_allocated_iff)
    then obtain t where t: "faceTex ed p f = Some t"
      by blast
    show ?thesis
      using Some t
      by (cases "textureSource (BODY_PARTS p)")
         (simp_all add: face_in_sync_def source_canvas_def sync_faceTex part_synced_def
            synced_tex_def synced_face_def clean_raster_of_def sync_rest clean_raster_again)
  qed
  then show ?thesis
    by (simp add: in_sync_iff)
qed

lemma createPart_fields:
  "faceTex (createPart L ed pn) p = (if p = pn then createFace L (BODY_PARTS p) else faceTex ed p)"
  "bodyMeshes (createPart L ed pn) p =
     (if p = pn then Some (map (faceMaterial p (BODY_PARTS p)) FACE_ORDER) else bodyMeshes ed p)"
  "shirtCanvas (createPart L ed pn) = shirtCanvas ed"
  "pantsCanvas (createPart L ed pn) = pantsCanvas ed"
  "currentMode (createPart L ed pn) = currentMode ed"
  by (simp_all add: createPart_def Let_def)

lemma foldl_createPart_fields:
  "faceTex (foldl (createPart L) ed ps) p =
     (if p \<in> set ps then createFace L (BODY_PARTS p) else faceTex ed p)"
  "bodyMeshes (foldl (createPart L) ed ps) p =
     (if p \<in> set ps then Some (map (faceMaterial p (BODY_PARTS p)) FACE_ORDER)
      else bodyMeshes ed p)"
  "shirtCanvas (foldl (createPart L) ed ps) = shirtCanvas ed"
  "pantsCanvas (foldl (createPart L) ed ps) = pantsCanvas ed"
  "currentMode (foldl (createPart L) ed ps) = currentMode ed"
  by (induction ps arbitrary: ed) (simp_all add: createPart_fields)

lemma init_fields:
  "faceTex (initEditor L) p = createFace L (BODY_PARTS p)"
  "bodyMeshes (initEditor L) p = Some (map (faceMaterial p (BODY_PARTS p)) FACE_ORDER)"
  "shirtCanvas (initEditor L) = initCanvas L"
  "pantsCanvas (initEditor L) = initCanvas L"
  "currentMode (initEditor L) = Shirt"
  by (simp_all add: initEditor_def foldl_createPart_fields part_in_PART_NAMES)

lemma init_canvas_fields:
  "layers (initCanvas L) = []"
  "activeObject (initCanvas L) = None"
  "backgroundColor (initCanvas L) = ''#ffffff''"
  "backgroundImage (initCanvas L) = None"
  "guides_visible (initCanvas L)"
  "length (objects (initCanvas L)) = 8"
  by (simp_all add: initCanvas_def layers_def DROP_ZONES_def guide_text_def guide_rect_def
        guides_visible_def)

lemma init_canvas_ok: "canvas_ok (initCanvas L)"
  by (simp add: canvas_ok_def init_canvas_fields)

lemma init_allocated: "textures_allocated (initEditor L)"
  by (simp add: textures_allocated_iff init_fields createFace_def split: option.splits)

lemma init_editor_ok: "editor_ok (initEditor L)"
  by (simp add: editor_ok_def init_fields init_canvas_ok init_allocated)

lemma head_materials:
  "bodyMeshes (initEditor L) Head = Some (replicate 6 SkinMaterial)"
  by (simp add: init_fields faceMaterial_def FACE_ORDER_def eval_nat_numeral)

lemma source_none_iff: "textureSource (BODY_PARTS p) = SrcNone \<longleftrightarrow> p = Head"
  by (cases p) simp_all

lemma flat_lib_fields:
  "filled128 flat_lib c = c"
  "drawImage flat_lib src r dst = src"
  "paintBackground flat_lib c None = c"
  by (simp_all add: flat_lib_def)

section \<open>Rasterising, synchronising, switching, deleting\<close>

text \<open>
  Claim C4.  The raster that \<open>getCleanCanvasElement\<close> returns is the rendering of
  the canvas with its guides removed and nothing selected: it holds no pixel of
  a guide or of a selection decoration, whatever the guides and the layers are,
  and two canvases with the same layers and background give the same raster.
  A canvas without layers rasterises to the bare background.  Afterwards the
  canvas is as it was: on a canvas whose guides are visible, as they are on
  every canvas the editor builds, the visibility of every guide and the
  selection are restored.
\<close>

theorem clean_raster_without_guides:
  "fst (getCleanCanvasElement L c) = renderCanvas L (c\<lparr>objects := layers c, activeObject := None\<rparr>)
   \<and> (layers c' = layers c \<and> backgroundColor c' = backgroundColor c \<and>
        backgroundImage c' = backgroundImage c \<longrightarrow>
      fst (getCleanCanvasElement L c') = fst (getCleanCanvasElement L c))
   \<and> (layers c = [] \<longrightarrow>
      fst (getCleanCanvasElement L c) = paintBackground L (backgroundColor c) (backgroundImage c))
   \<and> (guides_visible c \<longrightarrow> snd (getCleanCanvasElement L c) = c)"
  by (simp add: clean_raster clean_canvas_id renderCanvas_def)

theorem clean_raster_without_guides_witness:
  "guides_visible (initCanvas flat_lib)
   \<and> layers (initCanvas flat_lib) = []
   \<and> fst (getCleanCanvasElement flat_lib (initCanvas flat_lib)) = ''#ffffff''
   \<and> snd (getCleanCanvasElement flat_lib (initCanvas flat_lib)) = initCanvas flat_lib"
  using clean_raster_without_guides [of flat_lib "initCanvas flat_lib" "initCanvas flat_lib"]
  by (simp add: init_canvas_fields flat_lib_fields renderCanvas_def)

text \<open>
  Claim C7.  Synchronising twice in a row, with no change to a canvas in between,
  gives every face texture the pixels that synchronising once gives it, and
  leaves both canvases as the first synchronisation left them.
\<close>

theorem updateAllTextures_idempotent:
  "map_option pixels (faceTex (updateAllTextures L (updateAllTextures L ed)) p f) =
     map_option pixels (faceTex (updateAllTextures L ed) p f)
   \<and> shirtCanvas (updateAllTextures L (updateAllTextures L ed)) =
       shirtCanvas (updateAllTextures L ed)
   \<and> pantsCanvas (updateAllTextures L (updateAllTextures L ed)) =
       pantsCanvas (updateAllTextures L ed)"
  by (simp add: sync_pixels_twice sync_canvases_twice)

text \<open>
  Claim C5.  \<open>switchMode\<close> returns the state as it is when the new mode is the
  current one.  In every case both canvases are left as they are, objects,
  transforms and selection, so switching to pants and back to shirt leaves both
  canvases identical; and the face textures are left as they are, versions
  included, whereas a synchronisation raises the version of every mapped
  texture: switching does not synchronise.
\<close>

theorem switchMode_keeps_canvases:
  "(newMode = currentMode ed \<longrightarrow> switchMode newMode ed = ed)
   \<and> shirtCanvas (switchMode newMode ed) = shirtCanvas ed
   \<and> pantsCanvas (switchMode newMode ed) = pantsCanvas ed
   \<and> shirtCanvas (switchMode Shirt (switchMode Pants ed)) = shirtCanvas ed
   \<and> pantsCanvas (switchMode Shirt (switchMode Pants ed)) = pantsCanvas ed
   \<and> faceTex (switchMode newMode ed) = faceTex ed
   \<and> (faceTex ed p f = Some t \<and> faces (BODY_PARTS p) f = Some r \<and> p \<noteq> Head \<longrightarrow>
        map_option version (faceTex (updateAllTextures L ed) p f) = Some (version t + 1))"
proof -
  have "map_option version (faceTex (updateAllTextures L ed) p f) = Some (version t + 1)"
    if "faceTex ed p f = Some t" "faces (BODY_PARTS p) f = Some r" "p \<noteq> Head"
    using that
    by (cases p) (simp_all add: sync_faceTex part_synced_def synced_tex_def synced_face_def)
  then show ?thesis
    by (simp add: switchMode_def)
qed

theorem switchMode_keeps_canvases_witness:
  "switchMode Shirt (initEditor flat_lib) = initEditor flat_lib
   \<and> shirtCanvas (switchMode Pants (initEditor flat_lib)) = initCanvas flat_lib
   \<and> map_option version (faceTex (switchMode Pants (initEditor flat_lib)) Torso Front) = Some 1
   \<and> map_option version (faceTex (updateAllTextures flat_lib (initEditor flat_lib)) Torso Front)
       = Some 2"
  using switchMode_keeps_canvases [of Shirt "initEditor flat_lib" Torso Front
      "\<lparr>pixels = ''#ffffff'', version = 1\<rparr>" "mk_region 128 128 128 128" flat_lib]
    switchMode_keeps_canvases [of Pants "initEditor flat_lib" Torso Front
      "\<lparr>pixels = ''#ffffff'', version = 1\<rparr>" "mk_region 128 128 128 128" flat_lib]
  by (simp add: init_fields createFace_def flat_lib_fields numeral_2_eq_2)

lemma FIT_ZONES_front: "FIT_ZONES ''front'' = Some (mk_region 128 128 128 128)"
  by (simp add: FIT_ZONES_def)

text \<open>
  Claim C1.  After a synchronisation, every face that has a region, on a part
  whose texture source is the shirt or the pants canvas, holds the white fill
  overdrawn with that region of the guide-hidden raster of its source canvas,
  resampled into the 128 x 128 face canvas.  In particular, after a layer is
  added to the shirt canvas and fitted to the zone \<open>front\<close>, the front face of
  the torso holds the region (128, 128, 128, 128) of the guide-hidden raster of
  the shirt canvas.  A part without a texture source, which is the head alone,
  is skipped: its entries and the materials of all meshes are left as they are,
  and the head was given the skin material on each of its six faces.
\<close>

theorem updateAllTextures_copies_regions:
  "(source_canvas (textureSource (BODY_PARTS p)) ed = Some c \<and>
      faces (BODY_PARTS p) f = Some r \<and> faceTex ed p f = Some t \<longrightarrow>
      map_option pixels (faceTex (updateAllTextures L ed) p f) =
        Some (drawImage L (fst (getCleanCanvasElement L c)) r (filled128 L ''#ffffff'')))
   \<and> (editor_ok ed \<and> currentMode ed = Shirt \<longrightarrow>
        map_option pixels
          (faceTex (snd (fitToZone L ''front'' (upload L img w h ed))) Torso Front) =
        Some (drawImage L
               (fst (getCleanCanvasElement L
                  (shirtCanvas (snd (fitToZone L ''front'' (upload L img w h ed))))))
               (mk_region 128 128 128 128) (filled128 L ''#ffffff'')))
   \<and> (textureSource (BODY_PARTS p) = SrcNone \<longleftrightarrow> p = Head)
   \<and> faceTex (updateAllTextures L ed) Head = faceTex ed Head
   \<and> bodyMeshes (updateAllTextures L ed) = bodyMeshes ed
   \<and> bodyMeshes (initEditor L) Head = Some (replicate 6 SkinMaterial)"
proof -
  have general: "map_option pixels (faceTex (updateAllTextures L ed) p f) =
        Some (drawImage L (fst (getCleanCanvasElement L c)) r (filled128 L ''#ffffff''))"
    if "source_canvas (textureSource (BODY_PARTS p)) ed = Some c"
      "faces (BODY_PARTS p) f = Some r" "faceTex ed p f = Some t"
    using sync_mapped_face [OF that, of L] by (simp add: clean_raster_of_def)
  have fitted: "map_option pixels
          (faceTex (snd (fitToZone L ''front'' (upload L img w h ed))) Torso Front) =
        Some (drawImage L
               (fst (getCleanCanvasElement L
                  (shirtCanvas (snd (fitToZone L ''front'' (upload L img w h ed))))))
               (mk_region 128 128 128 128) (filled128 L ''#ffffff''))"
    if ok: "editor_ok ed" and shirt: "currentMode ed = Shirt"
  proof -
    let ?ed' = "snd (fitToZone L ''front'' (upload L img w h ed))"
    obtain ed1 where ed': "?ed' = updateAllTextures L ed1" and ok1: "textures_allocated ed1"
    proof
      from upload_result [OF ok, of L img w h]
      have uok: "editor_ok (upload L img w h ed)"
        and sel: "activeObject (getActiveCanvas (upload L img w h ed)) =
                    Some (length (objects (getActiveCanvas ed)))"
        by simp_all
      let ?u = "upload L img w h ed"
      let ?i = "length (objects (getActiveCanvas ed))"
      let ?front = "bringToFront ?i ((getActiveCanvas ?u)\<lparr>objects :=
           (objects (getActiveCanvas ?u))[?i :=
              fit_object (mk_region 128 128 128 128) (objects (getActiveCanvas ?u) ! ?i)]\<rparr>)"
      show "?ed' = updateAllTextures L (putActiveCanvas ?front ?u)"
        using sel by (simp add: fitToZone_def Let_def FIT_ZONES_front)
      show "textures_allocated (putActiveCanvas ?front ?u)"
        using uok by (simp add: editor_ok_def textures_allocated_iff getActive_put)
    qed
    have "in_sync L ?ed'"
      unfolding ed' using ok1 by (rule sync_in_sync)
    then have "face_in_sync L ?ed' Torso Front"
      by (simp add: in_sync_iff)
    then show ?thesis
      by (simp add: face_in_sync_def source_canvas_def clean_raster_of_def)
  qed
  show ?thesis
    using general fitted
    by (simp add: source_none_iff sync_unmapped_part sync_rest head_materials)
qed

theorem updateAllTextures_copies_regions_witness:
  "source_canvas (textureSource (BODY_PARTS RightLeg)) (initEditor flat_lib)
     = Some (initCanvas flat_lib)
   \<and> faces (BODY_PARTS RightLeg) Bottom = Some (mk_region 64 516 64 43)
   \<and> faceTex (initEditor flat_lib) RightLeg Bottom = Some \<lparr>pixels = ''#3d5a80'', version = 1\<rparr>
   \<and> map_option pixels (faceTex (updateAllTextures flat_lib (initEditor flat_lib)) RightLeg Bottom)
       = Some ''#ffffff''
   \<and> editor_ok (initEditor flat_lib) \<and> currentMode (initEditor flat_lib) = Shirt
   \<and> map_option pixels (faceTex (snd (fitToZone flat_lib ''front''
         (upload flat_lib ''#ff0000'' 49 49 (initEditor flat_lib)))) Torso Front)
       = Some ''#ff0000''"
proof -
  let ?ed = "initEditor flat_lib"
  let ?u = "upload flat_lib ''#ff0000'' 49 49 ?ed"
  let ?z = "mk_region 128 128 128 128"
  note inst = updateAllTextures_copies_regions [of RightLeg "initEditor flat_lib" "initCanvas flat_lib" Bottom
      "mk_region 64 516 64 43" "\<lparr>pixels = ''#3d5a80'', version = 1\<rparr>" flat_lib "''#ff0000''" 49 49]
  have ok: "editor_ok ?ed"
    by (rule init_editor_ok)
  have act: "getActiveCanvas ?ed = initCanvas flat_lib"
    by (simp add: getActiveCanvas_def init_fields)
  have uok: "editor_ok ?u"
    using ok by (rule upload_result(5))
  have usel: "activeObject (getActiveCanvas ?u) = Some (length (objects (getActiveCanvas ?ed)))"
    using ok by (rule upload_result(2))
  note fit = fitToZone_selected [OF uok usel FIT_ZONES_front, of flat_lib]
  have shirt: "getActiveCanvas (snd (fitToZone flat_lib ''front'' ?u)) =
      shirtCanvas (snd (fitToZone flat_lib ''front'' ?u))"
    using fit(5) upload_result(4) [OF ok, of flat_lib "''#ff0000''" 49 49]
    by (simp add: getActiveCanvas_def init_fields)
  have objs: "layers (shirtCanvas (snd (fitToZone flat_lib ''front'' ?u))) =
      [fit_object ?z (new_image ''#ff0000'' 49 49)]"
    using fit(2) upload_result(1) [OF ok, of flat_lib "''#ff0000''" 49 49]
      init_canvas_fields(1) [of flat_lib]
    by (simp add: shirt act layers_def fit_object_fields new_image_fields)
  have raster: "fst (getCleanCanvasElement flat_lib
      (shirtCanvas (snd (fitToZone flat_lib ''front'' ?u)))) = ''#ff0000''"
    by (simp add: clean_raster objs paintVisible_def fit_object_fields new_image_fields)
       (simp add: flat_lib_def new_image_def fit_object_def)
  have leg: "map_option pixels
      (faceTex (updateAllTextures flat_lib ?ed) RightLeg Bottom) = Some ''#ffffff''"
    using inst
    by (simp add: init_fields source_canvas_def createFace_def flat_lib_fields clean_raster
          init_canvas_fields)
  have front: "map_option pixels
      (faceTex (snd (fitToZone flat_lib ''front'' ?u)) Torso Front) = Some ''#ff0000''"
    using inst ok by (simp add: init_fields flat_lib_fields raster)
  show ?thesis
    using leg front ok
    by (simp add: init_fields source_canvas_def createFace_def flat_lib_fields)
qed

lemma sync_zero_layers:
  assumes "source_canvas (textureSource (BODY_PARTS p)) ed = Some c"
    and "faces (BODY_PARTS p) f = Some r"
    and "faceTex ed p f = Some t"
    and "layers c = []"
  shows "map_option pixels (faceTex (updateAllTextures L ed) p f) =
           Some (drawImage L (paintBackground L (backgroundColor c) (backgroundImage c)) r
                  (filled128 L ''#ffffff''))"
  using sync_mapped_face [OF assms(1-3), of L] assms(4)
  by (simp add: clean_raster_of_def clean_raster)

text \<open>
  Claim C3, as the specification states it, fails: with no layer on either
  canvas and the flat library, the front face of the right leg is white after a
  synchronisation, not the denim blue it was created with.
\<close>

theorem pants_faces_not_denim_after_sync:
  "layers (shirtCanvas (initEditor flat_lib)) = []
   \<and> layers (pantsCanvas (initEditor flat_lib)) = []
   \<and> textureSource (BODY_PARTS RightLeg) = SrcPants
   \<and> map_option pixels (faceTex (initEditor flat_lib) RightLeg Front)
       = Some (filled128 flat_lib ''#3d5a80'')
   \<and> map_option pixels (faceTex (updateAllTextures flat_lib (initEditor flat_lib)) RightLeg Front)
       = Some (filled128 flat_lib ''#ffffff'')
   \<and> map_option pixels (faceTex (updateAllTextures flat_lib (initEditor flat_lib)) RightLeg Front)
       \<noteq> Some (filled128 flat_lib ''#3d5a80'')"
proof -
  have "map_option pixels (faceTex (updateAllTextures flat_lib (initEditor flat_lib)) RightLeg Front)
       = Some ''#ffffff''"
    using sync_zero_layers [of RightLeg "initEditor flat_lib" "initCanvas flat_lib" Front
        "mk_region 64 388 64 128" "\<lparr>pixels = ''#3d5a80'', version = 1\<rparr>" flat_lib]
    by (simp add: init_fields source_canvas_def createFace_def flat_lib_fields init_canvas_fields)
  then show ?thesis
    by (auto simp: init_fields init_canvas_fields createFace_def flat_lib_fields)
qed

text \<open>
  Claim C3, amended.  The fill colours, white for the parts that read the shirt
  canvas and denim blue for those that read the pants canvas, are what the face
  textures hold from their creation until the first synchronisation.  After a
  synchronisation with no layer on either canvas every mapped face, of a shirt
  part or of a pants part alike, holds the white fill overdrawn with its region
  of the bare background of its source canvas.  The faces of the head have the
  skin material, and a synchronisation changes no material.
\<close>

theorem face_textures_without_layers:
  "(faces (BODY_PARTS p) f = Some r \<longrightarrow>
      faceTex (initEditor L) p f =
        Some \<lparr>pixels = filled128 L (if textureSource (BODY_PARTS p) = SrcPants then ''#3d5a80''
                                     else ''#ffffff''),
              version = 1\<rparr>)
   \<and> (layers (shirtCanvas ed) = [] \<and> layers (pantsCanvas ed) = [] \<and>
      source_canvas (textureSource (BODY_PARTS p)) ed = Some c \<and>
      faces (BODY_PARTS p) f = Some r \<and> faceTex ed p f = Some t \<longrightarrow>
      map_option pixels (faceTex (updateAllTextures L ed) p f) =
        Some (drawImage L (paintBackground L (backgroundColor c) (backgroundImage c)) r
               (filled128 L ''#ffffff'')))
   \<and> bodyMeshes (initEditor L) Head = Some (replicate 6 SkinMaterial)
   \<and> bodyMeshes (updateAllTextures L ed) = bodyMeshes ed"
proof -
  have zero: "map_option pixels (faceTex (updateAllTextures L ed) p f) =
        Some (drawImage L (paintBackground L (backgroundColor c) (backgroundImage c)) r
               (filled128 L ''#ffffff''))"
    if "layers (shirtCanvas ed) = []" "layers (pantsCanvas ed) = []"
      "source_canvas (textureSource (BODY_PARTS p)) ed = Some c"
      "faces (BODY_PARTS p) f = Some r" "faceTex ed p f = Some t"
  proof -
    from that(1-3) have "layers c = []"
      by (auto simp: source_canvas_def split: texture_source.splits)
    with that(3-5) show ?thesis
      by (rule sync_zero_layers)
  qed
  show ?thesis
    using zero by (simp add: init_fields(1) createFace_def head_materials sync_rest)
qed

theorem face_textures_without_layers_witness:
  "faces (BODY_PARTS LeftLeg) Top = Some (mk_region 455 323 64 64)
   \<and> faceTex (initEditor flat_lib) LeftLeg Top = Some \<lparr>pixels = ''#3d5a80'', version = 1\<rparr>
   \<and> layers (shirtCanvas (initEditor flat_lib)) = []
   \<and> layers (pantsCanvas (initEditor flat_lib)) = []
   \<and> source_canvas (textureSource (BODY_PARTS LeftLeg)) (initEditor flat_lib)
       = Some (initCanvas flat_lib)
   \<and> map_option pixels (faceTex (updateAllTextures flat_lib (initEditor flat_lib)) LeftLeg Top)
       = Some ''#ffffff''"
  using face_textures_without_layers [of LeftLeg Top "mk_region 455 323 64 64" flat_lib
      "initEditor flat_lib" "initCanvas flat_lib" "\<lparr>pixels = ''#3d5a80'', version = 1\<rparr>"]
  by (simp add: init_fields init_canvas_fields source_canvas_def createFace_def flat_lib_fields)

lemma no_layers_no_selection:
  assumes "canvas_ok c" "layers c = []"
  shows "activeObject c = None"
proof (cases "activeObject c")
  case None
  then show ?thesis .
next
  case (Some i)
  with assms(1) have "i < length (objects c)" "\<not> isGuide (objects c ! i)"
    by (simp_all add: canvas_ok_def)
  then have "objects c ! i \<in> set (layers c)"
    by (simp add: layers_def)
  with assms(2) show ?thesis
    by simp
qed

text \<open>
  Claim C6.  \<open>deleteSelected\<close> with nothing selected tells the user to select an
  image, and with a guide selected tells the user that guides cannot be
  deleted; in both cases the state is returned as it is.  Otherwise it removes
  the selected object and no other from the active canvas, clears the
  selection, leaves the other canvas as it is and ends with the textures
  synchronised.  So after a layer is added to a canvas without layers, deleting
  leaves the canvas without layers; and on a canvas without layers deleting is
  refused for want of a selection and changes nothing.
\<close>

theorem deleteSelected_contract:
  "(activeObject (getActiveCanvas ed) = None \<longrightarrow>
      deleteSelected L ed = (Some ''Select an image to delete!'', ed))
   \<and> (activeObject (getActiveCanvas ed) = Some i \<and> isGuide (objects (getActiveCanvas ed) ! i) \<longrightarrow>
      deleteSelected L ed = (Some ''Cannot delete guide elements!'', ed))
   \<and> (editor_ok ed \<and> activeObject (getActiveCanvas ed) = Some i \<longrightarrow>
      fst (deleteSelected L ed) = None \<and>
      objects (getActiveCanvas (snd (deleteSelected L ed))) =
        take i (objects (getActiveCanvas ed)) @ drop (Suc i) (objects (getActiveCanvas ed)) \<and>
      length (objects (getActiveCanvas (snd (deleteSelected L ed)))) + 1 =
        length (objects (getActiveCanvas ed)) \<and>
      activeObject (getActiveCanvas (snd (deleteSelected L ed))) = None \<and>
      otherCanvas (snd (deleteSelected L ed)) = otherCanvas ed \<and>
      in_sync L (snd (deleteSelected L ed)))
   \<and> (editor_ok ed \<and> layers (getActiveCanvas ed) = [] \<longrightarrow>
      fst (deleteSelected L (upload L img w h ed)) = None \<and>
      layers (getActiveCanvas (snd (deleteSelected L (upload L img w h ed)))) = [])
   \<and> (editor_ok ed \<and> layers (getActiveCanvas ed) = [] \<longrightarrow>
      deleteSelected L ed = (Some ''Select an image to delete!'', ed))"
proof -
  have none: "deleteSelected L ed = (Some ''Select an image to delete!'', ed)"
    if "activeObject (getActiveCanvas ed) = None"
    using that by (simp add: deleteSelected_def)
  have guide: "deleteSelected L ed = (Some ''Cannot delete guide elements!'', ed)"
    if "activeObject (getActiveCanvas ed) = Some i" "isGuide (objects (getActiveCanvas ed) ! i)"
    using that by (simp add: deleteSelected_def)
  have layer: "fst (deleteSelected L ed) = None \<and>
      objects (getActiveCanvas (snd (deleteSelected L ed))) =
        take i (objects (getActiveCanvas ed)) @ drop (Suc i) (objects (getActiveCanvas ed)) \<and>
      length (objects (getActiveCanvas (snd (deleteSelected L ed)))) + 1 =
        length (objects (getActiveCanvas ed)) \<and>
      activeObject (getActiveCanvas (snd (deleteSelected L ed))) = None \<and>
      otherCanvas (snd (deleteSelected L ed)) = otherCanvas ed \<and>
      in_sync L (snd (deleteSelected L ed))"
    if ok: "editor_ok ed" and sel: "activeObject (getActiveCanvas ed) = Some i"
  proof -
    note del = deleteSelected_layer [OF ok sel, of L]
    from ok sel have i: "i < length (objects (getActiveCanvas ed))"
      and ng: "\<not> isGuide (objects (getActiveCanvas ed) ! i)"
      by (simp_all add: editor_ok_def getActiveCanvas_def canvas_ok_def split: if_splits)
    have "\<exists>ed1. snd (deleteSelected L ed) = updateAllTextures L ed1 \<and> textures_allocated ed1"
    proof (intro exI conjI)
      let ?ed1 = "updateAllTextures L (putActiveCanvas (remove_object i (getActiveCanvas ed)) ed)"
      show "snd (deleteSelected L ed) = updateAllTextures L
          (putActiveCanvas ((getActiveCanvas ?ed1)\<lparr>activeObject := None\<rparr>) ?ed1)"
        using sel ng by (simp add: deleteSelected_def Let_def)
      show "textures_allocated
          (putActiveCanvas ((getActiveCanvas ?ed1)\<lparr>activeObject := None\<rparr>) ?ed1)"
        using ok by (simp add: editor_ok_def textures_allocated_iff getActive_put sync_faceTex
              part_synced_def synced_tex_def split: texture_source.splits option.splits)
    qed
    then have "in_sync L (snd (deleteSelected L ed))"
      by (auto simp: sync_in_sync)
    then show ?thesis
      using del i by simp
  qed
  have only: "fst (deleteSelected L (upload L img w h ed)) = None \<and>
      layers (getActiveCanvas (snd (deleteSelected L (upload L img w h ed)))) = []"
    if ok: "editor_ok ed" and zero: "layers (getActiveCanvas ed) = []"
  proof -
    note up = upload_result [OF ok, of L img w h]
    note del = deleteSelected_layer [OF up(5) up(2), of L]
    show ?thesis
      using del(1) zero by (simp add: layers_def del(2) up(1))
  qed
  have empty: "deleteSelected L ed = (Some ''Select an image to delete!'', ed)"
    if ok: "editor_ok ed" and zero: "layers (getActiveCanvas ed) = []"
    using no_layers_no_selection [OF editor_ok_canvases(1) [OF ok] zero] by (rule none)
  show ?thesis
    using none guide layer only empty by blast
qed

theorem deleteSelected_contract_witness:
  "editor_ok (initEditor flat_lib)
   \<and> layers (getActiveCanvas (initEditor flat_lib)) = []
   \<and> activeObject (getActiveCanvas (initEditor flat_lib)) = None
   \<and> deleteSelected flat_lib (initEditor flat_lib)
       = (Some ''Select an image to delete!'', initEditor flat_lib)
   \<and> activeObject (getActiveCanvas (upload flat_lib ''#ff0000'' 49 49 (initEditor flat_lib))) = Some 8
   \<and> fst (deleteSelected flat_lib (upload flat_lib ''#ff0000'' 49 49 (initEditor flat_lib))) = None
   \<and> layers (getActiveCanvas (snd (deleteSelected flat_lib
         (upload flat_lib ''#ff0000'' 49 49 (initEditor flat_lib))))) = []"
proof -
  let ?ed = "initEditor flat_lib"
  have ok: "editor_ok ?ed"
    by (rule init_editor_ok)
  have act: "getActiveCanvas ?ed = initCanvas flat_lib"
    by (simp add: getActiveCanvas_def init_fields)
  have sel: "activeObject (getActiveCanvas (upload flat_lib ''#ff0000'' 49 49 ?ed)) = Some 8"
    using upload_result(2) [OF ok, of flat_lib "''#ff0000''" 49 49]
    by (simp add: act init_canvas_fields)
  show ?thesis
    using deleteSelected_contract [of ?ed flat_lib 8 "''#ff0000''" 49 49] ok sel
    by (simp add: act init_canvas_fields)
qed

section \<open>Fitting a layer to a zone\<close>

lemma js_div_128_49: "js_div 128 49 = 5882252574524729 / 2251799813685248"
  by code_simp

lemma js_mul_49: "js_mul 49 (5882252574524729 / 2251799813685248) \<noteq> 128"
  by code_simp

lemma round_to_double_2: "round_to_double 2 = 2"
  by code_simp

lemma js_div_128_64: "js_div 128 64 = 2"
  by code_simp

lemma fitted_upload:
  assumes ok: "editor_ok ed" and zone: "FIT_ZONES zoneName = Some z"
  shows "objects (getActiveCanvas (snd (fitToZone L zoneName (upload L img w h ed)))) =
           objects (getActiveCanvas ed) @ [fit_object z (new_image img w h)]"
proof -
  note up = upload_result [OF ok, of L img w h]
  note fit = fitToZone_selected [OF up(5) up(2) zone, of L]
  show ?thesis
    by (simp add: fit(2) up(1))
qed

lemma scaled_value:
  assumes "0 < d" "scaled n d s = (a, b)"
  shows "0 < b" and "rat_of_int a / rat_of_int b = (rat_of_int n / rat_of_int d) * 2 powi s"
proof -
  show "0 < b"
    using assms by (auto simp: scaled_def split: if_splits)
  show "rat_of_int a / rat_of_int b = (rat_of_int n / rat_of_int d) * 2 powi s"
  proof (cases "0 \<le> s")
    case True
    then show ?thesis
      using assms by (auto simp: scaled_def power_int_def)
  next
    case False
    then show ?thesis
      using assms by (auto simp: scaled_def power_int_def power_inverse field_simps)
  qed
qed

lemma round_half_even_error:
  assumes "0 < b"
  shows "\<bar>rat_of_int (round_half_even a b) - rat_of_int a / rat_of_int b\<bar> \<le> 1 / 2"
proof -
  define q where "q = a div b"
  define r where "r = a mod b"
  have a: "a = q * b + r"
    by (simp add: q_def r_def)
  have r: "0 \<le> r" "r < b"
    using assms by (simp_all add: r_def)
  have frac: "rat_of_int a / rat_of_int b = rat_of_int q + rat_of_int r / rat_of_int b"
    using assms by (simp add: a field_simps)
  have rb: "0 \<le> rat_of_int r / rat_of_int b" "rat_of_int r / rat_of_int b < 1"
    using r assms by simp_all
  have val: "round_half_even a b =
      (if 2 * r < b then q else if b < 2 * r then q + 1 else if even q then q else q + 1)"
    by (simp add: round_half_even_def Let_def q_def r_def)
  consider "2 * r < b" | "b < 2 * r" | "2 * r = b"
    by linarith
  then show ?thesis
  proof cases
    case 1
    then have "rat_of_int (2 * r) < rat_of_int b"
      by (simp only: of_int_less_iff)
    then have "rat_of_int r / rat_of_int b < 1 / 2"
      using assms by (simp add: field_simps)
    with 1 rb show ?thesis
      by (simp add: val frac)
  next
    case 2
    then have "rat_of_int b < rat_of_int (2 * r)"
      by (simp only: of_int_less_iff)
    then have "1 / 2 < rat_of_int r / rat_of_int b"
      using assms by (simp add: field_simps)
    with 2 rb show ?thesis
      by (simp add: val frac)
  next
    case 3
    then have "rat_of_int b = rat_of_int (2 * r)"
      by simp
    then have half: "rat_of_int r / rat_of_int b = 1 / 2"
      using assms 3 by simp
    have "round_half_even a b = q \<or> round_half_even a b = q + 1"
      using 3 by (simp add: val)
    then show ?thesis
      by (auto simp: frac half)
  qed
qed

lemma bitlen_powi:
  assumes "0 < n"
  shows "2 powi (bitlen n - 1) \<le> rat_of_int n" and "rat_of_int n < 2 powi bitlen n"
proof -
  from assms have one: "1 \<le> bitlen n"
    by (auto simp: bitlen_alt_def)
  from bitlen_bounds [OF assms]
  have lo: "2 ^ nat (bitlen n - 1) \<le> n" and hi: "n < 2 ^ nat (bitlen n)"
    by simp_all
  from lo have "rat_of_int (2 ^ nat (bitlen n - 1)) \<le> rat_of_int n"
    by (simp only: of_int_le_iff)
  then show "2 powi (bitlen n - 1) \<le> rat_of_int n"
    using one by (simp add: power_int_def)
  from hi have "rat_of_int n < rat_of_int (2 ^ nat (bitlen n))"
    by (simp only: of_int_less_iff)
  then show "rat_of_int n < 2 powi bitlen n"
    using one by (simp add: power_int_def)
qed

lemma mantissa_shift_lower:
  assumes n: "0 < n" and d: "0 < d"
  shows "2 ^ 52 \<le> (rat_of_int n / rat_of_int d) * 2 powi mantissa_shift n d"
proof -
  define x where "x = rat_of_int n / rat_of_int d"
  define s where "s = 53 - (bitlen n - bitlen d)"
  obtain a b where ab: "scaled n d s = (a, b)"
    by (cases "scaled n d s")
  note sv = scaled_value [OF d ab]
  have xpos: "0 < x"
    using n d by (simp add: x_def)
  have "2 powi (bitlen n - 1) / 2 powi bitlen d < x"
  proof -
    have "2 powi (bitlen n - 1) / 2 powi bitlen d < 2 powi (bitlen n - 1) / rat_of_int d"
      using bitlen_powi(2) [OF d] d by (simp add: frac_less2)
    also have "\<dots> \<le> x"
      using bitlen_powi(1) [OF n] d by (simp add: x_def divide_right_mono)
    finally show ?thesis .
  qed
  then have "2 powi (bitlen n - 1 - bitlen d) < x"
    by (simp add: power_int_diff)
  then have "2 powi (bitlen n - 1 - bitlen d) * 2 powi s < x * 2 powi s"
    by simp
  also have "2 powi (bitlen n - 1 - bitlen d) * 2 powi s = (2::rat) powi 52"
    by (simp add: s_def flip: power_int_add)
  finally have low: "2 ^ 52 < x * 2 powi s"
    by simp
  show ?thesis
  proof (cases "2 ^ 53 * b \<le> a")
    case True
    then have "rat_of_int (2 ^ 53 * b) \<le> rat_of_int a"
      by (simp only: of_int_le_iff)
    then have "2 ^ 53 \<le> rat_of_int a / rat_of_int b"
      using sv(1) by (simp add: field_simps)
    then have "2 ^ 53 \<le> x * 2 powi s"
      by (simp add: sv(2) x_def)
    then have "2 ^ 52 \<le> x * (2 powi s / 2)"
      by simp
    moreover have "(2::rat) powi (s - 1) = 2 powi s / 2"
      by (simp add: power_int_diff)
    ultimately have "2 ^ 52 \<le> x * 2 powi (s - 1)"
      by (simp only:)
    moreover have "mantissa_shift n d = s - 1"
      using True ab by (simp add: mantissa_shift_def Let_def flip: s_def)
    ultimately show ?thesis
      by (simp add: x_def)
  next
    case False
    then have "mantissa_shift n d = s"
      using ab by (simp add: mantissa_shift_def Let_def flip: s_def)
    with low show ?thesis
      by (simp add: x_def)
  qed
qed

lemma round_pos_error:
  assumes n: "0 < n" and d: "0 < d"
  shows "\<bar>round_pos n d - rat_of_int n / rat_of_int d\<bar> \<le> (rat_of_int n / rat_of_int d) / 2 ^ 53"
proof -
  define x where "x = rat_of_int n / rat_of_int d"
  define s where "s = mantissa_shift n d"
  obtain a b where ab: "scaled n d s = (a, b)"
    by (cases "scaled n d s")
  define m where "m = round_half_even a b"
  define p where "p = (2::rat) powi s"
  note sv = scaled_value [OF d ab]
  have ppos: "0 < p"
    by (simp add: p_def)
  have res: "round_pos n d = rat_of_int m / p"
    using ab
    by (cases "0 \<le> s")
       (simp_all add: round_pos_def Let_def m_def p_def power_int_def power_inverse field_simps
          flip: s_def)
  have y: "rat_of_int a / rat_of_int b = x * p"
    by (simp add: sv(2) x_def p_def)
  have near: "\<bar>rat_of_int m - x * p\<bar> \<le> 1 / 2"
    using round_half_even_error [OF sv(1), of a] by (simp add: m_def y)
  have low: "2 ^ 52 \<le> x * p"
    using mantissa_shift_lower [OF n d] by (simp add: x_def p_def s_def)
  have "round_pos n d - x = (rat_of_int m - x * p) / p"
    using ppos by (simp add: res field_simps)
  then have "\<bar>round_pos n d - x\<bar> = \<bar>rat_of_int m - x * p\<bar> / p"
    using ppos by (simp add: abs_divide)
  also have "\<dots> \<le> (1 / 2) / p"
    using near ppos by (intro divide_right_mono) simp_all
  also have "\<dots> \<le> x / 2 ^ 53"
    using low ppos by (simp add: field_simps)
  finally show ?thesis
    by (simp add: x_def)
qed

lemma round_to_double_error:
  assumes "0 < q"
  shows "\<bar>round_to_double q - q\<bar> \<le> q / 2 ^ 53"
proof -
  obtain n d where nd: "quotient_of q = (n, d)"
    by (cases "quotient_of q")
  then have d: "0 < d" and q: "q = rat_of_int n / rat_of_int d"
    by (simp_all add: quotient_of_denom_pos quotient_of_div)
  with assms have n: "0 < n"
    by (simp add: zero_less_divide_iff)
  have "round_to_double q = round_pos n d"
    using nd n by (simp add: round_to_double_def)
  moreover have "\<bar>round_pos n d - q\<bar> \<le> q / 2 ^ 53"
    using round_pos_error [OF n d] by (simp only: q [symmetric])
  ultimately show ?thesis
    by simp
qed

lemma js_div_product_error:
  assumes "0 < a" "0 < b"
  shows "\<bar>b * js_div a b - a\<bar> \<le> a / 2 ^ 53"
proof -
  have "\<bar>js_div a b - a / b\<bar> \<le> (a / b) / 2 ^ 53"
    unfolding js_div_def using assms by (intro round_to_double_error) simp
  then have "b * \<bar>js_div a b - a / b\<bar> \<le> b * ((a / b) / 2 ^ 53)"
    using assms(2) by (simp only: mult_le_cancel_left_pos)
  moreover have "b * \<bar>js_div a b - a / b\<bar> = \<bar>b * (js_div a b - a / b)\<bar>"
    using assms(2) by (simp add: abs_mult)
  moreover have "b * (js_div a b - a / b) = b * js_div a b - a"
    using assms(2) by (simp add: right_diff_distrib)
  moreover have "b * ((a / b) / 2 ^ 53) = a / 2 ^ 53"
    using assms(2) by simp
  ultimately show ?thesis
    by simp
qed

text \<open>
  Claim C2, as the specification states it, fails: the scale factors are doubles,
  and the product of the width and the fitted scale need not give the zone width
  back.  For an uploaded image 49 pixels wide fitted to the zone \<open>front\<close>, the
  scale is the double nearest to 128 / 49, and 49 times it is not 128, whether
  the product is taken exactly or in double arithmetic.
\<close>

theorem fit_product_not_exact:
  "FIT_ZONES ''front'' = Some (mk_region 128 128 128 128)
   \<and> width (last (objects (getActiveCanvas (snd (fitToZone flat_lib ''front''
        (upload flat_lib ''#ff0000'' 49 49 (initEditor flat_lib))))))) = 49
   \<and> scaleX (last (objects (getActiveCanvas (snd (fitToZone flat_lib ''front''
        (upload flat_lib ''#ff0000'' 49 49 (initEditor flat_lib)))))))
       = 5882252574524729 / 2251799813685248
   \<and> width (last (objects (getActiveCanvas (snd (fitToZone flat_lib ''front''
        (upload flat_lib ''#ff0000'' 49 49 (initEditor flat_lib)))))))
     * scaleX (last (objects (getActiveCanvas (snd (fitToZone flat_lib ''front''
        (upload flat_lib ''#ff0000'' 49 49 (initEditor flat_lib)))))))
       \<noteq> of_int (rw (mk_region 128 128 128 128))
   \<and> js_mul (width (last (objects (getActiveCanvas (snd (fitToZone flat_lib ''front''
        (upload flat_lib ''#ff0000'' 49 49 (initEditor flat_lib))))))))
       (scaleX (last (objects (getActiveCanvas (snd (fitToZone flat_lib ''front''
        (upload flat_lib ''#ff0000'' 49 49 (initEditor flat_lib))))))))
       \<noteq> of_int (rw (mk_region 128 128 128 128))"
proof -
  have last: "last (objects (getActiveCanvas (snd (fitToZone flat_lib ''front''
        (upload flat_lib ''#ff0000'' 49 49 (initEditor flat_lib)))))) =
      fit_object (mk_region 128 128 128 128) (new_image ''#ff0000'' 49 49)"
    using fitted_upload [where L = flat_lib and img = "''#ff0000''" and w = 49 and h = 49,
        OF init_editor_ok FIT_ZONES_front]
    by simp
  show ?thesis
    unfolding last
    using js_mul_49
    by (simp add: FIT_ZONES_front fit_object_fields new_image_fields mk_region_def js_div_128_49)
qed

text \<open>
  Claim C2, amended.  Without a selection \<open>fitToZone\<close> tells the user to select
  an image and returns the state as it is.  With the layer at position \<open>i\<close>
  selected and a fit zone \<open>z\<close> named, the layer gets the left and top of the
  zone and, as scale factors, the doubles nearest to the zone width over its
  width and the zone height over its height; its width and height are kept; it
  becomes the last object of the canvas, above all others, which keep their
  order, and stays selected; the other canvas is untouched and the textures end
  synchronised.  The width times the scale is the zone width exactly whenever
  the quotient is a double, as for widths that are powers of two; for other
  widths it is the zone width up to the rounding of the quotient: the difference
  is at most the zone width times \<open>2^-53\<close>.  The same holds for the heights.
\<close>

theorem fitToZone_contract:
  "(activeObject (getActiveCanvas ed) = None \<longrightarrow>
      fitToZone L zoneName ed = (Some ''Select an image first!'', ed))
   \<and> (editor_ok ed \<and> activeObject (getActiveCanvas ed) = Some i \<and>
      FIT_ZONES zoneName = Some z \<longrightarrow>
      fst (fitToZone L zoneName ed) = None \<and>
      objects (getActiveCanvas (snd (fitToZone L zoneName ed))) =
        take i (objects (getActiveCanvas ed)) @ drop (Suc i) (objects (getActiveCanvas ed)) @
        [fit_object z (objects (getActiveCanvas ed) ! i)] \<and>
      activeObject (getActiveCanvas (snd (fitToZone L zoneName ed))) =
        Some (length (objects (getActiveCanvas ed)) - 1) \<and>
      otherCanvas (snd (fitToZone L zoneName ed)) = otherCanvas ed \<and>
      in_sync L (snd (fitToZone L zoneName ed)))
   \<and> oleft (fit_object z ob) = of_int (rx z)
   \<and> otop (fit_object z ob) = of_int (ry z)
   \<and> scaleX (fit_object z ob) = js_div (of_int (rw z)) (width ob)
   \<and> scaleY (fit_object z ob) = js_div (of_int (rh z)) (height ob)
   \<and> width (fit_object z ob) = width ob
   \<and> height (fit_object z ob) = height ob
   \<and> (0 < width ob \<and> round_to_double (of_int (rw z) / width ob) = of_int (rw z) / width ob \<longrightarrow>
        width ob * scaleX (fit_object z ob) = of_int (rw z))
   \<and> (0 < height ob \<and> round_to_double (of_int (rh z) / height ob) = of_int (rh z) / height ob \<longrightarrow>
        height ob * scaleY (fit_object z ob) = of_int (rh z))
   \<and> (0 < width ob \<and> 0 < rw z \<longrightarrow>
        \<bar>width ob * scaleX (fit_object z ob) - of_int (rw z)\<bar> \<le> of_int (rw z) / 2 ^ 53)
   \<and> (0 < height ob \<and> 0 < rh z \<longrightarrow>
        \<bar>height ob * scaleY (fit_object z ob) - of_int (rh z)\<bar> \<le> of_int (rh z) / 2 ^ 53)"
proof -
  have none: "fitToZone L zoneName ed = (Some ''Select an image first!'', ed)"
    if "activeObject (getActiveCanvas ed) = None"
    using that by (simp add: fitToZone_def)
  have some: "fst (fitToZone L zoneName ed) = None \<and>
      objects (getActiveCanvas (snd (fitToZone L zoneName ed))) =
        take i (objects (getActiveCanvas ed)) @ drop (Suc i) (objects (getActiveCanvas ed)) @
        [fit_object z (objects (getActiveCanvas ed) ! i)] \<and>
      activeObject (getActiveCanvas (snd (fitToZone L zoneName ed))) =
        Some (length (objects (getActiveCanvas ed)) - 1) \<and>
      otherCanvas (snd (fitToZone L zoneName ed)) = otherCanvas ed \<and>
      in_sync L (snd (fitToZone L zoneName ed))"
    if ok: "editor_ok ed" and sel: "activeObject (getActiveCanvas ed) = Some i"
      and zone: "FIT_ZONES zoneName = Some z"
  proof -
    note fit = fitToZone_selected [OF ok sel zone, of L]
    have "\<exists>ed1. snd (fitToZone L zoneName ed) = updateAllTextures L ed1 \<and> textures_allocated ed1"
    proof (intro exI conjI)
      let ?c = "getActiveCanvas ed"
      let ?front = "bringToFront i (?c\<lparr>objects := (objects ?c)[i := fit_object z (objects ?c ! i)]\<rparr>)"
      show "snd (fitToZone L zoneName ed) = updateAllTextures L (putActiveCanvas ?front ed)"
        using sel zone by (simp add: fitToZone_def Let_def)
      show "textures_allocated (putActiveCanvas ?front ed)"
        using ok by (simp add: editor_ok_def textures_allocated_iff getActive_put)
    qed
    then have "in_sync L (snd (fitToZone L zoneName ed))"
      by (auto simp: sync_in_sync)
    then show ?thesis
      using fit by simp
  qed
  have exact: "b * js_div a b = a"
    if "0 < b" "round_to_double (a / b) = a / b" for a b :: rat
    using that by (simp add: js_div_def)
  have near: "\<bar>width ob * scaleX (fit_object z ob) - of_int (rw z)\<bar> \<le> of_int (rw z) / 2 ^ 53"
    if "0 < width ob" "0 < rw z"
    using js_div_product_error [of "of_int (rw z)" "width ob"] that
    by (simp add: fit_object_fields)
  have near': "\<bar>height ob * scaleY (fit_object z ob) - of_int (rh z)\<bar> \<le> of_int (rh z) / 2 ^ 53"
    if "0 < height ob" "0 < rh z"
    using js_div_product_error [of "of_int (rh z)" "height ob"] that
    by (simp add: fit_object_fields)
  have fields: "width ob * scaleX (fit_object z ob) = of_int (rw z)"
    if "0 < width ob" "round_to_double (of_int (rw z) / width ob) = of_int (rw z) / width ob"
    using exact [OF that] by (simp add: fit_object_fields)
  have fields': "height ob * scaleY (fit_object z ob) = of_int (rh z)"
    if "0 < height ob" "round_to_double (of_int (rh z) / height ob) = of_int (rh z) / height ob"
    using exact [OF that] by (simp add: fit_object_fields)
  show ?thesis
    using none some fields fields' near near'
    by (simp add: fit_object_fields)
qed

theorem fitToZone_contract_witness:
  "editor_ok (upload flat_lib ''#00ff00'' 64 64 (initEditor flat_lib))
   \<and> activeObject (getActiveCanvas (upload flat_lib ''#00ff00'' 64 64 (initEditor flat_lib))) = Some 8
   \<and> activeObject (getActiveCanvas (initEditor flat_lib)) = None
   \<and> fitToZone flat_lib ''front'' (initEditor flat_lib)
       = (Some ''Select an image first!'', initEditor flat_lib)
   \<and> FIT_ZONES ''front'' = Some (mk_region 128 128 128 128)
   \<and> fst (fitToZone flat_lib ''front'' (upload flat_lib ''#00ff00'' 64 64 (initEditor flat_lib)))
       = None
   \<and> activeObject (getActiveCanvas (snd (fitToZone flat_lib ''front''
         (upload flat_lib ''#00ff00'' 64 64 (initEditor flat_lib))))) = Some 8
   \<and> (0::rat) < width (new_image ''#00ff00'' 64 64)
   \<and> round_to_double (of_int (rw (mk_region 128 128 128 128)) / width (new_image ''#00ff00'' 64 64))
       = of_int (rw (mk_region 128 128 128 128)) / width (new_image ''#00ff00'' 64 64)
   \<and> scaleX (fit_object (mk_region 128 128 128 128) (new_image ''#00ff00'' 64 64)) = 2
   \<and> width (new_image ''#00ff00'' 64 64)
       * scaleX (fit_object (mk_region 128 128 128 128) (new_image ''#00ff00'' 64 64)) = 128"
proof -
  let ?ed = "initEditor flat_lib"
  let ?u = "upload flat_lib ''#00ff00'' 64 64 ?ed"
  have ok: "editor_ok ?ed"
    by (rule init_editor_ok)
  have act: "getActiveCanvas ?ed = initCanvas flat_lib"
    by (simp add: getActiveCanvas_def init_fields)
  note up = upload_result [OF ok, of flat_lib "''#00ff00''" 64 64]
  have len: "length (objects (getActiveCanvas ?u)) = 9"
    by (simp add: up(1) act init_canvas_fields)
  have sel: "activeObject (getActiveCanvas ?u) = Some 8"
    using up(2) by (simp add: act init_canvas_fields)
  have none: "fitToZone flat_lib ''front'' ?ed = (Some ''Select an image first!'', ?ed)"
    using fitToZone_contract [of ?ed flat_lib "''front''" 8 "mk_region 128 128 128 128"
        "new_image ''#00ff00'' 64 64"]
    by (simp add: act init_canvas_fields)
  have some: "fst (fitToZone flat_lib ''front'' ?u) = None \<and>
      activeObject (getActiveCanvas (snd (fitToZone flat_lib ''front'' ?u))) = Some 8 \<and>
      scaleX (fit_object (mk_region 128 128 128 128) (new_image ''#00ff00'' 64 64)) = 2 \<and>
      width (new_image ''#00ff00'' 64 64)
       * scaleX (fit_object (mk_region 128 128 128 128) (new_image ''#00ff00'' 64 64)) = 128"
    using fitToZone_contract [of ?u flat_lib "''front''" 8 "mk_region 128 128 128 128"
        "new_image ''#00ff00'' 64 64"] up(5) sel
    by (simp add: FIT_ZONES_front len new_image_fields mk_region_def round_to_double_2
          js_div_128_64)
  show ?thesis
    using none some up(5) sel
    by (simp add: act init_canvas_fields FIT_ZONES_front new_image_fields mk_region_def
          round_to_double_2)
qed

section \<open>Export file names\<close>

lemma trim_split:
  "dropWhile is_js_space s =
     trim s @ rev (takeWhile is_js_space (rev (dropWhile is_js_space s)))"
proof -
  let ?t = "dropWhile is_js_space s"
  have "trim s @ rev (takeWhile is_js_space (rev ?t)) =
      rev (takeWhile is_js_space (rev ?t) @ dropWhile is_js_space (rev ?t))"
    by (simp only: trim_def rev_append)
  also have "\<dots> = rev (rev ?t)"
    by (simp only: takeWhile_dropWhile_id)
  also have "\<dots> = ?t"
    by (simp only: rev_rev_ident)
  finally show ?thesis
    by (rule sym)
qed

lemma trim_decomposition:
  "\<exists>a b. s = a @ trim s @ b \<and> list_all is_js_space a \<and> list_all is_js_space b"
proof (intro exI conjI)
  let ?t = "dropWhile is_js_space s"
  let ?a = "takeWhile is_js_space s"
  let ?b = "rev (takeWhile is_js_space (rev ?t))"
  have "s = ?a @ ?t"
    by simp
  also have "?t = trim s @ ?b"
    by (rule trim_split)
  finally show "s = ?a @ trim s @ ?b" .
  show "list_all is_js_space ?a"
    by (simp add: list_all_iff) (meson set_takeWhileD)
  show "list_all is_js_space ?b"
    by (simp add: list_all_iff) (meson set_takeWhileD)
qed

lemma trim_ends:
  assumes "trim s \<noteq> []"
  shows "\<not> is_js_space (hd (trim s))" and "\<not> is_js_space (last (trim s))"
proof -
  let ?t = "dropWhile is_js_space s"
  let ?u = "dropWhile is_js_space (rev ?t)"
  have u: "?u \<noteq> []"
    using assms by (simp add: trim_def)
  then have "\<not> is_js_space (hd ?u)"
    by (rule hd_dropWhile)
  moreover have "last (trim s) = hd ?u"
    using u by (simp add: trim_def last_rev)
  ultimately show "\<not> is_js_space (last (trim s))"
    by simp
  have "?t \<noteq> []"
  proof
    assume "?t = []"
    then have "?u = []"
      by (simp only: rev.simps dropWhile.simps)
    with u show False
      by simp
  qed
  then have nsp: "\<not> is_js_space (hd ?t)"
    by (rule hd_dropWhile)
  have "hd ?t = hd (trim s @ rev (takeWhile is_js_space (rev ?t)))"
    using trim_split [of s] by (simp only:)
  then have "hd ?t = hd (trim s)"
    using assms by simp
  with nsp show "\<not> is_js_space (hd (trim s))"
    by simp
qed

lemma endsWith_append: "endsWith (xs @ ys) ys"
  by (simp add: endsWith_def)

lemma resolve_filename_lower_png:
  "endsWith (toLowerCase (resolve_filename d a)) ''.png''"
proof -
  have "toLowerCase (xs @ ''.png'') = toLowerCase xs @ ''.png''" for xs
    by (simp add: toLowerCase_def lower_char_def)
  then show ?thesis
    by (simp add: resolve_filename_def Let_def endsWith_append)
qed

lemma download_state:
  assumes "guides_visible (shirtCanvas ed)" "guides_visible (pantsCanvas ed)"
  shows "snd (downloadTexture L type answer ed) = ed"
  using assms
  by (cases answer) (simp_all add: downloadTexture_def split_beta Let_def clean_canvas_id)

lemma download_result:
  "fst (downloadTexture L type answer ed) =
     map_option (\<lambda>filename.
        (resolve_filename (if type = ''shirt'' then ''roblox_shirt_design''
                           else ''roblox_pants_design'') filename,
         fst (getCleanCanvasElement L (if type = ''shirt'' then shirtCanvas ed else pantsCanvas ed))))
       answer"
  by (cases answer) (simp_all add: downloadTexture_def split_beta Let_def)

lemma default_names_not_png:
  "\<not> endsWith (toLowerCase ''roblox_shirt_design'') ''.png''"
  "\<not> endsWith (toLowerCase ''roblox_pants_design'') ''.png''"
  by (simp_all add: endsWith_def toLowerCase_def lower_char_def)

lemma upper_png:
  "\<not> endsWith ''LOGO.PNG'' ''.png''"
  "resolve_filename ''roblox_shirt_design'' ''LOGO.PNG'' = ''LOGO.PNG''"
  by code_simp+

text \<open>
  Claim C8, as the specification states it, fails: the extension is looked for in
  the lower-cased name.  The answer \<open>LOGO.PNG\<close> does not end with \<open>.png\<close>, and
  the file is named \<open>LOGO.PNG\<close>, with nothing appended.
\<close>

theorem upper_case_extension_kept:
  "\<not> endsWith ''LOGO.PNG'' ''.png''
   \<and> map_option fst (fst (downloadTexture flat_lib ''shirt'' (Some ''LOGO.PNG'')
         (initEditor flat_lib))) = Some ''LOGO.PNG''
   \<and> map_option fst (fst (downloadTexture flat_lib ''shirt'' (Some ''LOGO.PNG'')
         (initEditor flat_lib))) \<noteq> Some (''LOGO.PNG'' @ ''.png'')"
  by (simp add: download_result upper_png)

text \<open>
  Claim C8, amended.  When the prompt is cancelled \<open>downloadTexture\<close> produces no
  file, and otherwise one file, the guide-hidden raster of the chosen canvas
  under the resolved name.  The name is the answer without the white space at
  its two ends; when that is empty, the default name of the canvas; and
  \<open>.png\<close> is appended unless the name already ends with \<open>.png\<close> in any letter
  case, so that the resolved name always ends with it in lower-cased form.  In
  both cases the editor is left as it was, its guides being visible.
\<close>

theorem export_filename_chain:
  "fst (downloadTexture L type None ed) = None
   \<and> fst (downloadTexture L type (Some answer) ed) =
       Some (resolve_filename (if type = ''shirt'' then ''roblox_shirt_design''
                               else ''roblox_pants_design'') answer,
             fst (getCleanCanvasElement L
                    (if type = ''shirt'' then shirtCanvas ed else pantsCanvas ed)))
   \<and> (guides_visible (shirtCanvas ed) \<and> guides_visible (pantsCanvas ed) \<longrightarrow>
        snd (downloadTexture L type None ed) = ed \<and>
        snd (downloadTexture L type (Some answer) ed) = ed)
   \<and> (\<exists>a b. answer = a @ trim answer @ b \<and> list_all is_js_space a \<and> list_all is_js_space b)
   \<and> (trim answer \<noteq> [] \<longrightarrow>
        \<not> is_js_space (hd (trim answer)) \<and> \<not> is_js_space (last (trim answer)))
   \<and> (trim answer = [] \<and> (d = ''roblox_shirt_design'' \<or> d = ''roblox_pants_design'') \<longrightarrow>
        resolve_filename d answer = d @ ''.png'')
   \<and> (trim answer \<noteq> [] \<and> endsWith (toLowerCase (trim answer)) ''.png'' \<longrightarrow>
        resolve_filename d answer = trim answer)
   \<and> (trim answer \<noteq> [] \<and> \<not> endsWith (toLowerCase (trim answer)) ''.png'' \<longrightarrow>
        resolve_filename d answer = trim answer @ ''.png'')
   \<and> endsWith (toLowerCase (resolve_filename d answer)) ''.png''"
proof -
  have dflt: "resolve_filename d answer = d @ ''.png''"
    if "trim answer = []" "d = ''roblox_shirt_design'' \<or> d = ''roblox_pants_design''"
    using that default_names_not_png by (auto simp: resolve_filename_def)
  show ?thesis
    using trim_decomposition [of answer] trim_ends [of answer] dflt
      download_state [of ed L type]
    by (simp add: download_result resolve_filename_lower_png) (simp add: resolve_filename_def)
qed

theorem export_filename_chain_witness:
  "guides_visible (shirtCanvas (initEditor flat_lib))
   \<and> guides_visible (pantsCanvas (initEditor flat_lib))
   \<and> downloadTexture flat_lib ''pants'' None (initEditor flat_lib) = (None, initEditor flat_lib)
   \<and> trim ''  '' = []
   \<and> downloadTexture flat_lib ''pants'' (Some ''  '') (initEditor flat_lib)
       = (Some (''roblox_pants_design.png'', ''#ffffff''), initEditor flat_lib)
   \<and> trim '' my shirt '' = ''my shirt''
   \<and> \<not> endsWith (toLowerCase ''my shirt'') ''.png''
   \<and> resolve_filename ''roblox_pants_design'' '' my shirt '' = ''my shirt.png''
   \<and> trim ''a.png '' = ''a.png''
   \<and> endsWith (toLowerCase ''a.png'') ''.png''
   \<and> resolve_filename ''roblox_pants_design'' ''a.png '' = ''a.png''"
proof -
  have gv: "guides_visible (shirtCanvas (initEditor flat_lib))"
      "guides_visible (pantsCanvas (initEditor flat_lib))"
    by (simp_all add: init_fields init_canvas_fields)
  have t: "trim ''  '' = []" "trim '' my shirt '' = ''my shirt''" "trim ''a.png '' = ''a.png''"
    by code_simp+
  have e: "\<not> endsWith (toLowerCase ''my shirt'') ''.png''" "endsWith (toLowerCase ''a.png'') ''.png''"
    by code_simp+
  have raster: "fst (getCleanCanvasElement flat_lib (initCanvas flat_lib)) = ''#ffffff''"
    by (simp add: clean_raster init_canvas_fields flat_lib_fields)
  have cancel: "downloadTexture flat_lib ''pants'' None (initEditor flat_lib)
      = (None, initEditor flat_lib)"
    using export_filename_chain [of flat_lib "''pants''" "initEditor flat_lib" "''  ''"
        "''roblox_pants_design''"] gv
    by (simp add: prod_eq_iff)
  have blank: "downloadTexture flat_lib ''pants'' (Some ''  '') (initEditor flat_lib)
       = (Some (''roblox_pants_design.png'', ''#ffffff''), initEditor flat_lib)"
    using export_filename_chain [of flat_lib "''pants''" "initEditor flat_lib" "''  ''"
        "''roblox_pants_design''"] gv t(1)
    by (simp add: prod_eq_iff init_fields raster)
  have named: "resolve_filename ''roblox_pants_design'' '' my shirt '' = ''my shirt.png''"
    using export_filename_chain [of flat_lib "''pants''" "initEditor flat_lib" "'' my shirt ''"
        "''roblox_pants_design''"] t(2) e(1)
    by simp
  have png: "resolve_filename ''roblox_pants_design'' ''a.png '' = ''a.png''"
    using export_filename_chain [of flat_lib "''pants''" "initEditor flat_lib" "''a.png ''"
        "''roblox_pants_design''"] t(3) e(2)
    by simp
  show ?thesis
    using gv cancel blank named png t e by simp
qed

section \<open>The reachable states\<close>

text \<open>
  Every operation of the editor keeps the invariant, which the initial state has
  (\<open>init_editor_ok\<close>): the states the editor reaches all satisfy it.
\<close>

lemma editor_ok_kept:
  assumes ok: "editor_ok ed"
  shows "editor_ok (updateAllTextures L ed)"
    and "editor_ok (switchMode newMode ed)"
    and "editor_ok (upload L img w h ed)"
    and "editor_ok (snd (fitToZone L zoneName ed))"
    and "editor_ok (snd (deleteSelected L ed))"
    and "editor_ok (snd (downloadTexture L type answer ed))"
    and "editor_ok (ed\<lparr>shirtCanvas := templateLoaded img (shirtCanvas ed)\<rparr>)"
    and "editor_ok (ed\<lparr>pantsCanvas := templateLoaded img (pantsCanvas ed)\<rparr>)"
proof -
  show "editor_ok (updateAllTextures L ed)"
    using ok by (rule sync_editor_ok)
  show "editor_ok (switchMode newMode ed)"
    using ok by (simp add: switchMode_def editor_ok_def textures_allocated_iff)
  show "editor_ok (upload L img w h ed)"
    using ok by (rule upload_result(5))
  show "editor_ok (snd (fitToZone L zoneName ed))"
  proof (cases "activeObject (getActiveCanvas ed)")
    case None
    then show ?thesis
      using ok by (simp add: fitToZone_def)
  next
    case (Some i)
    show ?thesis
    proof (cases "FIT_ZONES zoneName")
      case None
      then show ?thesis
        using ok Some by (simp add: fitToZone_def)
    next
      case (Some z)
      with ok \<open>activeObject (getActiveCanvas ed) = Some i\<close> show ?thesis
        by (rule fitToZone_selected(6))
    qed
  qed
  show "editor_ok (snd (deleteSelected L ed))"
  proof (cases "activeObject (getActiveCanvas ed)")
    case None
    then show ?thesis
      using ok by (simp add: deleteSelected_def)
  next
    case (Some i)
    with ok show ?thesis
      by (rule deleteSelected_layer(6))
  qed
  have "guides_visible (shirtCanvas ed)" "guides_visible (pantsCanvas ed)"
    using ok by (simp_all add: editor_ok_def canvas_ok_def)
  then show "editor_ok (snd (downloadTexture L type answer ed))"
    using ok by (simp add: download_state)
  show "editor_ok (ed\<lparr>shirtCanvas := templateLoaded img (shirtCanvas ed)\<rparr>)"
    using ok
    by (auto simp: editor_ok_def canvas_ok_def guides_visible_def templateLoaded_def
          textures_allocated_iff split: option.splits)
  show "editor_ok (ed\<lparr>pantsCanvas := templateLoaded img (pantsCanvas ed)\<rparr>)"
    using ok
    by (auto simp: editor_ok_def canvas_ok_def guides_visible_def templateLoaded_def
          textures_allocated_iff split: option.splits)
qed

section \<open>The logo mode\<close>

lemma sum_list_le_const:
  fixes g :: "'a \<Rightarrow> nat"
  assumes "\<And>x. g x \<le> c"
  shows "sum_list (map g xs) \<le> c * length xs"
proof (induction xs)
  case Nil
  then show ?case by simp
next
  case (Cons a xs)
  with assms [of a] show ?case by simp
qed

lemma band_sum_le:
  "band_sum band im \<le> 255 * (fst (isize im) * snd (isize im))"
proof -
  have byte: "unat (band p) \<le> 255" for p
    using unsigned_less [of "band p", where ?'a = nat] by simp
  have row: "sum_list (map (\<lambda>x. unat (band (getpixel im x y))) [0..<fst (isize im)])
      \<le> 255 * fst (isize im)" for y
    using sum_list_le_const [of "\<lambda>x. unat (band (getpixel im x y))" 255 "[0..<fst (isize im)]"] byte
    by simp
  have "band_sum band im \<le> (255 * fst (isize im)) * snd (isize im)"
    unfolding band_sum_def
    using sum_list_le_const [of "\<lambda>y. sum_list (map (\<lambda>x. unat (band (getpixel im x y)))
        [0..<fst (isize im)])" "255 * fst (isize im)" "[0..<snd (isize im)]"] row
    by simp
  then show ?thesis
    by (simp add: mult.assoc)
qed

lemma band_mean_le:
  "band_sum band im div (fst (isize im) * snd (isize im)) \<le> 255"
proof (cases "fst (isize im) * snd (isize im) = 0")
  case True
  then have "band_sum band im div (fst (isize im) * snd (isize im)) = 0"
    by (simp only: div_by_0)
  then show ?thesis
    by simp
next
  case False
  have "band_sum band im div (fst (isize im) * snd (isize im))
      \<le> (255 * (fst (isize im) * snd (isize im))) div (fst (isize im) * snd (isize im))"
    using band_sum_le [of band im] by (rule div_le_mono)
  with False show ?thesis
    by simp
qed

lemma logo_size: "isize (logo_of P ai) = (128, 128)"
  by (simp add: logo_of_def resize_def LOGO_SIZE_def)

lemma logo_average:
  "get_average_color (logo_of P ai) =
     Inr (band_sum red (logo_of P ai) div 16384, band_sum green (logo_of P ai) div 16384,
          band_sum blue (logo_of P ai) div 16384)"
  by (simp add: get_average_color_def logo_size)

lemma logo_mean_le: "band_sum band (logo_of P ai) div 16384 \<le> 255"
  using band_mean_le [of band "logo_of P ai"] by (simp add: logo_size)

lemma byte_of_mean: "unat (of_nat (band_sum band (logo_of P ai) div 16384) :: 8 word) =
    band_sum band (logo_of P ai) div 16384"
  using logo_mean_le [of band P ai] by (intro of_nat_inverse) simp_all

lemma create_logo_base: "create_logo_mode_image P ai = Inr (logo_base P ai)"
proof -
  have "create_logo_mode_image P ai =
      Inr (paste_masked P (new_rgba (ROBLOX_WIDTH, ROBLOX_HEIGHT) (average_pixel P ai))
             (logo_of P ai) (LOGO_X, LOGO_Y))"
    using logo_average [of P ai]
    by (simp add: create_logo_mode_image_def Let_def average_pixel_def flip: logo_of_def)
  moreover have "paste_masked P (new_rgba (ROBLOX_WIDTH, ROBLOX_HEIGHT) (average_pixel P ai))
             (logo_of P ai) (LOGO_X, LOGO_Y) = logo_base P ai"
    by (simp add: paste_masked_def new_rgba_def logo_base_def logo_size ROBLOX_WIDTH_def
          ROBLOX_HEIGHT_def LOGO_X_def LOGO_Y_def cong: if_cong)
  ultimately show ?thesis
    by simp
qed

lemma fitted_overlay_size: "isize (fitted_overlay P opened) = (585, 559)"
  by (simp add: fitted_overlay_def resize_def ROBLOX_WIDTH_def ROBLOX_HEIGHT_def)

lemma overlay_applied:
  assumes "isize base = (585, 559)"
  shows "apply_template_overlay P (Inr opened) base =
     \<lparr>isize = (585, 559),
      getpixel = (\<lambda>x y. over P (getpixel base x y) (getpixel (fitted_overlay P opened) x y))\<rparr>"
  using assms fitted_overlay_size [of P opened]
  by (simp add: apply_template_overlay_def alpha_composite_def Let_def flip: fitted_overlay_def)

lemma band_sum_flat:
  assumes "getpixel im = (\<lambda>x y. c)"
  shows "band_sum band im = fst (isize im) * snd (isize im) * unat (band c)"
  by (simp add: band_sum_def assms sum_list_triv)

lemma opaque_wins_hard: "opaque_wins hard_pil"
  by (simp add: opaque_wins_def hard_pil_def)

text \<open>
  Claim C9.  In logo mode the source image is resized to the 128 x 128 logo
  footprint; the average colour of the logo is, band by band, the integer part
  of the mean of its red, green and blue bytes, the alpha band left out, and is
  a byte; the base image is 585 x 559, holds that colour with alpha 255
  everywhere outside the box of corner (231, 74) and side 128, and inside the
  box the blend of that colour with the logo pixel under the alpha of the logo
  pixel.  The template, resized to 585 x 559 unless it has that size, is then
  composited over the base image pixel by pixel with the base image below, so
  that, compositing being such that an opaque pixel replaces what is below it,
  the result has the pixel of the template wherever the template is opaque.
  When the template cannot be opened, or the compositing raises, the base image
  is returned as it is, and the logo mode still yields an image.
\<close>

theorem logo_mode_contract:
  "isize (logo_of P ai) = (LOGO_SIZE, LOGO_SIZE) \<and> LOGO_SIZE = 128
   \<and> get_average_color (logo_of P ai) =
       Inr (band_sum red (logo_of P ai) div (128 * 128),
            band_sum green (logo_of P ai) div (128 * 128),
            band_sum blue (logo_of P ai) div (128 * 128))
   \<and> int (band_sum band (logo_of P ai) div (128 * 128)) =
       \<lfloor>real (band_sum band (logo_of P ai)) / (128 * 128)\<rfloor>
   \<and> unat (red (average_pixel P ai)) = band_sum red (logo_of P ai) div (128 * 128)
   \<and> unat (green (average_pixel P ai)) = band_sum green (logo_of P ai) div (128 * 128)
   \<and> unat (blue (average_pixel P ai)) = band_sum blue (logo_of P ai) div (128 * 128)
   \<and> alpha (average_pixel P ai) = 255
   \<and> create_logo_mode_image P ai = Inr (logo_base P ai)
   \<and> isize (logo_base P ai) = (ROBLOX_WIDTH, ROBLOX_HEIGHT)
   \<and> (ROBLOX_WIDTH, ROBLOX_HEIGHT) = (585, 559)
   \<and> getpixel (logo_base P ai) x y =
       (if LOGO_X \<le> x \<and> x < LOGO_X + LOGO_SIZE \<and> LOGO_Y \<le> y \<and> y < LOGO_Y + LOGO_SIZE
        then blend P (alpha (getpixel (logo_of P ai) (x - LOGO_X) (y - LOGO_Y)))
               (average_pixel P ai) (getpixel (logo_of P ai) (x - LOGO_X) (y - LOGO_Y))
        else average_pixel P ai)
   \<and> (LOGO_X, LOGO_Y) = (231, 74)
   \<and> logo_mode P (Inr opened) ai =
       Inr \<lparr>isize = (585, 559),
            getpixel = (\<lambda>x y. over P (getpixel (logo_base P ai) x y)
                                  (getpixel (fitted_overlay P opened) x y))\<rparr>
   \<and> (opaque_wins P \<and> alpha (getpixel (fitted_overlay P opened) x y) = 255 \<longrightarrow>
        (\<exists>final. logo_mode P (Inr opened) ai = Inr final \<and>
           getpixel final x y = getpixel (fitted_overlay P opened) x y))
   \<and> (isize opened = (585, 559) \<longrightarrow> fitted_overlay P opened = opened)
   \<and> isize (fitted_overlay P opened) = (585, 559)
   \<and> apply_template_overlay P (Inl e) base = base
   \<and> (isize base \<noteq> (585, 559) \<longrightarrow> apply_template_overlay P (Inr opened) base = base)
   \<and> logo_mode P (Inl e) ai = Inr (logo_base P ai)"
proof -
  have avg: "get_average_color (logo_of P ai) =
       Inr (band_sum red (logo_of P ai) div (128 * 128),
            band_sum green (logo_of P ai) div (128 * 128),
            band_sum blue (logo_of P ai) div (128 * 128))"
    by (simp add: logo_average)
  have trunc: "int (band_sum band (logo_of P ai) div (128 * 128)) =
       \<lfloor>real (band_sum band (logo_of P ai)) / (128 * 128)\<rfloor>"
    using floor_divide_of_nat_eq [of "band_sum band (logo_of P ai)" "128 * 128", where ?'a = real]
    by simp
  have bytes: "unat (red (average_pixel P ai)) = band_sum red (logo_of P ai) div (128 * 128)"
    "unat (green (average_pixel P ai)) = band_sum green (logo_of P ai) div (128 * 128)"
    "unat (blue (average_pixel P ai)) = band_sum blue (logo_of P ai) div (128 * 128)"
    "alpha (average_pixel P ai) = 255"
    using byte_of_mean [of red P ai] byte_of_mean [of green P ai] byte_of_mean [of blue P ai]
    by (simp_all add: average_pixel_def red_def green_def blue_def alpha_def)
  have px: "getpixel (logo_base P ai) x y =
       (if LOGO_X \<le> x \<and> x < LOGO_X + LOGO_SIZE \<and> LOGO_Y \<le> y \<and> y < LOGO_Y + LOGO_SIZE
        then blend P (alpha (getpixel (logo_of P ai) (x - LOGO_X) (y - LOGO_Y)))
               (average_pixel P ai) (getpixel (logo_of P ai) (x - LOGO_X) (y - LOGO_Y))
        else average_pixel P ai)"
    by (simp add: logo_base_def LOGO_X_def LOGO_Y_def LOGO_SIZE_def)
  have base_size: "isize (logo_base P ai) = (585, 559)"
    by (simp add: logo_base_def)
  have composed: "logo_mode P (Inr opened) ai =
       Inr \<lparr>isize = (585, 559),
            getpixel = (\<lambda>x y. over P (getpixel (logo_base P ai) x y)
                                  (getpixel (fitted_overlay P opened) x y))\<rparr>"
    by (simp add: logo_mode_def create_logo_base overlay_applied [OF base_size])
  have wins: "\<exists>final. logo_mode P (Inr opened) ai = Inr final \<and>
           getpixel final x y = getpixel (fitted_overlay P opened) x y"
    if "opaque_wins P" "alpha (getpixel (fitted_overlay P opened) x y) = 255"
  proof -
    from that have "over P (getpixel (logo_base P ai) x y) (getpixel (fitted_overlay P opened) x y)
        = getpixel (fitted_overlay P opened) x y"
      unfolding opaque_wins_def by blast
    then show ?thesis
      by (simp add: composed)
  qed
  have same: "fitted_overlay P opened = opened" if "isize opened = (585, 559)"
    using that by (simp add: fitted_overlay_def ROBLOX_WIDTH_def ROBLOX_HEIGHT_def)
  have failed: "apply_template_overlay P (Inl e) base = base"
    by (simp add: apply_template_overlay_def)
  have raised: "apply_template_overlay P (Inr opened) base = base" if "isize base \<noteq> (585, 559)"
    using that fitted_overlay_size [of P opened]
    by (simp add: apply_template_overlay_def alpha_composite_def Let_def flip: fitted_overlay_def)
  have nofile: "logo_mode P (Inl e) ai = Inr (logo_base P ai)"
    by (simp add: logo_mode_def create_logo_base apply_template_overlay_def)
  show ?thesis
    using avg trunc bytes px composed wins same failed raised nofile
    by (simp add: logo_size create_logo_base base_size fitted_overlay_size LOGO_SIZE_def
          ROBLOX_WIDTH_def ROBLOX_HEIGHT_def LOGO_X_def LOGO_Y_def)
qed

theorem logo_mode_contract_witness:
  "opaque_wins hard_pil
   \<and> isize \<lparr>isize = (585, 559), getpixel = (\<lambda>x y. (1, 2, 3, 255))\<rparr> = (585, 559)
   \<and> alpha (getpixel (fitted_overlay hard_pil
         \<lparr>isize = (585, 559), getpixel = (\<lambda>x y. (1, 2, 3, 255))\<rparr>) 240 80) = 255
   \<and> (\<exists>final. logo_mode hard_pil
          (Inr \<lparr>isize = (585, 559), getpixel = (\<lambda>x y. (1, 2, 3, 255))\<rparr>)
          \<lparr>isize = (1024, 1024), getpixel = (\<lambda>x y. (200, 100, 50, 255))\<rparr> = Inr final
        \<and> getpixel final 240 80 = (1, 2, 3, 255))
   \<and> average_pixel hard_pil \<lparr>isize = (1024, 1024), getpixel = (\<lambda>x y. (200, 100, 50, 255))\<rparr>
       = (200, 100, 50, 255)
   \<and> isize \<lparr>isize = (3, 3), getpixel = (\<lambda>x y. (9, 9, 9, 9))\<rparr> \<noteq> (585, 559)
   \<and> apply_template_overlay hard_pil
         (Inr \<lparr>isize = (585, 559), getpixel = (\<lambda>x y. (1, 2, 3, 255))\<rparr>)
         \<lparr>isize = (3, 3), getpixel = (\<lambda>x y. (9, 9, 9, 9))\<rparr>
       = \<lparr>isize = (3, 3), getpixel = (\<lambda>x y. (9, 9, 9, 9))\<rparr>"
proof -
  let ?tmpl = "\<lparr>isize = (585, 559), getpixel = (\<lambda>x y. (1, 2, 3, 255))\<rparr> :: image"
  let ?ai = "\<lparr>isize = (1024, 1024), getpixel = (\<lambda>x y. (200, 100, 50, 255))\<rparr> :: image"
  let ?small = "\<lparr>isize = (3, 3), getpixel = (\<lambda>x y. (9, 9, 9, 9))\<rparr> :: image"
  have logo: "getpixel (logo_of hard_pil ?ai) = (\<lambda>x y. (200, 100, 50, 255))"
    by (simp add: logo_of_def resize_def hard_pil_def)
  have sums: "band_sum red (logo_of hard_pil ?ai) = 128 * 128 * 200"
    "band_sum green (logo_of hard_pil ?ai) = 128 * 128 * 100"
    "band_sum blue (logo_of hard_pil ?ai) = 128 * 128 * 50"
    by (simp_all add: band_sum_flat [OF logo] logo_size red_def green_def blue_def)
  have avg: "average_pixel hard_pil ?ai = (200, 100, 50, 255)"
    by (simp add: average_pixel_def sums)
  have fitted: "fitted_overlay hard_pil ?tmpl = ?tmpl"
    by (simp add: fitted_overlay_def ROBLOX_WIDTH_def ROBLOX_HEIGHT_def)
  note contract = logo_mode_contract [of hard_pil ?ai red 240 80 ?tmpl OSError ?small]
  have wins: "opaque_wins hard_pil \<and> alpha (getpixel (fitted_overlay hard_pil ?tmpl) 240 80) = 255
      \<longrightarrow> (\<exists>final. logo_mode hard_pil (Inr ?tmpl) ?ai = Inr final \<and>
             getpixel final 240 80 = getpixel (fitted_overlay hard_pil ?tmpl) 240 80)"
    using contract by blast
  have raised: "isize ?small \<noteq> (585, 559) \<longrightarrow>
      apply_template_overlay hard_pil (Inr ?tmpl) ?small = ?small"
    using contract by blast
  have final: "\<exists>final. logo_mode hard_pil (Inr ?tmpl) ?ai = Inr final \<and>
      getpixel final 240 80 = (1, 2, 3, 255)"
    using wins opaque_wins_hard by (simp add: fitted alpha_def)
  have kept: "apply_template_overlay hard_pil (Inr ?tmpl) ?small = ?small"
    using raised by simp
  show ?thesis
    using final kept opaque_wins_hard
    by (simp add: fitted avg alpha_def)
qed

end
